theory Spec2Isabelle
  imports Complex_Main
begin

section \<open>Robot path planner: embedding of autonomus\_command\_generator.py\<close>

text \<open>
  The development embeds the path model, the command bookkeeping, the motion densifier and
  the exporter of \<^verbatim>\<open>FieldCanvas\<close>. The drawing calls on the Tk canvas and the
  \<^verbatim>\<open>print\<close> calls have no effect on the model state and are left out.

  Numbers: Tk delivers pixel coordinates as Python ints, every derived quantity is a Python
  float. Both are embedded in \<^typ>\<open>real\<close>: the arithmetic is the exact arithmetic the float
  operations approximate, and integer coordinates are the reals that happen to be integers.
  The two-decimal text formatting of the written lines is not modelled: a written line is
  represented by the instruction it prints.
\<close>

subsection \<open>Module constants\<close>

definition TILE_SIZE_MM :: int where
  "TILE_SIZE_MM = 600"

definition FIELD_SIZE_MM :: int where
  "FIELD_SIZE_MM = TILE_SIZE_MM * 6"

definition FIELD_SIZE_PX :: int where
  "FIELD_SIZE_PX = FIELD_SIZE_MM div 10"

definition CENTRAL_LINE_OFFSET :: real where
  "CENTRAL_LINE_OFFSET = 10"

text \<open>The keys of \<^verbatim>\<open>COMMANDS\<close>; \<open>CmdNone\<close> is the key \<^verbatim>\<open>'None'\<close>.\<close>

datatype command = PickUp | Place | Scoop | Release | Clasp | CmdNone

subsection \<open>Python runtime behaviour made explicit\<close>

datatype py_exn = IndexError | KeyError | AttributeError | NameError | ZeroDivisionError

text \<open>The error dialogs of \<^verbatim>\<open>messagebox.showerror\<close>, by their titles.\<close>

datatype dialog = InvalidPoint | NoWaypointSelected | ClaspRequired | NoScoops

text \<open>
  How a callback ends: it runs to its end, it shows an error dialog and returns early,
  or an exception escapes it.
\<close>

datatype outcome = Done | Rejected dialog | Raised py_exn

text \<open>List indexing with Python's negative indices; \<open>None\<close> is an \<^verbatim>\<open>IndexError\<close>.\<close>

definition py_getitem :: "'a list \<Rightarrow> int \<Rightarrow> 'a option" where
  "py_getitem xs i =
     (let n = int (length xs); j = (if i < 0 then n + i else i)
      in if 0 \<le> j \<and> j < n then Some (xs ! nat j) else None)"

text \<open>\<^verbatim>\<open>int(x)\<close> on a float truncates towards zero.\<close>

definition py_int :: "real \<Rightarrow> int" where
  "py_int r = (if 0 \<le> r then \<lfloor>r\<rfloor> else \<lceil>r\<rceil>)"

text \<open>\<^verbatim>\<open>math.atan2(y, x)\<close> and \<^verbatim>\<open>math.degrees\<close> of the standard library.\<close>

definition atan2 :: "real \<Rightarrow> real \<Rightarrow> real" where
  "atan2 y x =
     (if 0 < x then arctan (y / x)
      else if x < 0 \<and> 0 \<le> y then arctan (y / x) + pi
      else if x < 0 then arctan (y / x) - pi
      else if 0 < y then pi / 2
      else if y < 0 then - pi / 2
      else 0)"

definition degrees :: "real \<Rightarrow> real" where
  "degrees r = r * (180 / pi)"

subsection \<open>The state of a FieldCanvas\<close>

type_synonym point = "real \<times> real"

datatype side = SideLeft | SideRight | SideNone

record FieldCanvas =
  selected_side :: side
  path_points :: "point list"
  dragging_curve :: bool
  selected_waypoint_index :: int
  waypoint_commands :: "point \<rightharpoonup> command"
  pending_clasp :: bool
  scoops_to_release :: int
  central_line_x :: real

text \<open>The fields as \<^verbatim>\<open>__init__\<close> sets them.\<close>

definition init_canvas :: "side \<Rightarrow> FieldCanvas" where
  "init_canvas s =
     \<lparr> selected_side = s,
       path_points = [],
       dragging_curve = False,
       selected_waypoint_index = - 1,
       waypoint_commands = Map.empty,
       pending_clasp = False,
       scoops_to_release = 0,
       central_line_x = real_of_int (FIELD_SIZE_PX div 2) \<rparr>"

subsection \<open>Path editing\<close>

text \<open>
  \<^verbatim>\<open>is_valid_point\<close>: \<open>None\<close> is the result \<^verbatim>\<open>True\<close>; \<open>Some d\<close> is the result
  \<^verbatim>\<open>False\<close> after the dialog \<open>d\<close> was shown.
\<close>

definition is_valid_point :: "FieldCanvas \<Rightarrow> real \<Rightarrow> dialog option" where
  "is_valid_point st x =
     (if selected_side st = SideLeft \<and> x > central_line_x st - CENTRAL_LINE_OFFSET
        then Some InvalidPoint
      else if selected_side st = SideRight \<and> x < central_line_x st + CENTRAL_LINE_OFFSET
        then Some InvalidPoint
      else None)"

definition add_starting_point :: "FieldCanvas \<Rightarrow> point \<Rightarrow> FieldCanvas" where
  "add_starting_point st p =
     st\<lparr> path_points := path_points st @ [p],
         waypoint_commands := (waypoint_commands st)(p \<mapsto> CmdNone) \<rparr>"

definition add_straight_line :: "FieldCanvas \<Rightarrow> point \<Rightarrow> outcome \<times> FieldCanvas" where
  "add_straight_line st p =
     (case is_valid_point st (fst p) of
        Some d \<Rightarrow> (Rejected d, st)
      | None \<Rightarrow>
          if path_points st = [] then (Done, add_starting_point st p)
          else (Done, st\<lparr> path_points := path_points st @ [p],
                          waypoint_commands := (waypoint_commands st)(p \<mapsto> CmdNone) \<rparr>))"

definition start_curve_point :: "FieldCanvas \<Rightarrow> point \<Rightarrow> outcome \<times> FieldCanvas" where
  "start_curve_point st p =
     (case is_valid_point st (fst p) of
        Some d \<Rightarrow> (Rejected d, st)
      | None \<Rightarrow>
          if path_points st = [] then (Done, add_starting_point st p)
          else (Done, st\<lparr> path_points := path_points st @ [p],
                          waypoint_commands := (waypoint_commands st)(p \<mapsto> CmdNone),
                          dragging_curve := True \<rparr>))"

definition calculate_bezier_end :: "point \<Rightarrow> point \<Rightarrow> point \<Rightarrow> point" where
  "calculate_bezier_end p1 p2 control = (fst p2, snd p2)"

text \<open>
  \<^verbatim>\<open>finalize_curve_point\<close>: the release position \<open>control\<close> is only used for drawing;
  the last waypoint is overwritten with the end of the curve.
\<close>

definition finalize_curve_point :: "FieldCanvas \<Rightarrow> point \<Rightarrow> outcome \<times> FieldCanvas" where
  "finalize_curve_point st control =
     (if \<not> dragging_curve st then (Done, st)
      else
        let st1 = st\<lparr> dragging_curve := False \<rparr> in
        (case py_getitem (path_points st1) (- 2) of
           None \<Rightarrow> (Raised IndexError, st1)
         | Some a \<Rightarrow>
             (case py_getitem (path_points st1) (- 1) of
                None \<Rightarrow> (Raised IndexError, st1)
              | Some b \<Rightarrow>
                  let p2 = calculate_bezier_end a b control in
                  (Done, st1\<lparr> path_points :=
                                 (path_points st1)[length (path_points st1) - 1 := p2] \<rparr>))))"

text \<open>
  \<^verbatim>\<open>cycle_waypoint\<close>: the lookups made to repaint the deselected waypoint can raise;
  the new index is Python's \<^verbatim>\<open>%\<close>, which for a positive modulus agrees with \<open>mod\<close>.
\<close>

definition cycle_waypoint :: "FieldCanvas \<Rightarrow> int \<Rightarrow> outcome \<times> FieldCanvas" where
  "cycle_waypoint st direction =
     (if path_points st = [] then (Done, st)
      else
        let moved = st\<lparr> selected_waypoint_index :=
                (selected_waypoint_index st + direction) mod int (length (path_points st)) \<rparr>
        in if selected_waypoint_index st \<noteq> - 1 then
             (case py_getitem (path_points st) (selected_waypoint_index st) of
                None \<Rightarrow> (Raised IndexError, st)
              | Some current_wp \<Rightarrow>
                  (case waypoint_commands st current_wp of
                     None \<Rightarrow> (Raised KeyError, st)
                   | Some c \<Rightarrow> (Done, moved)))
           else (Done, moved))"

subsection \<open>Command bookkeeping\<close>

text \<open>
  \<^verbatim>\<open>assign_command\<close>, statement by statement: each early return hands back the state
  as the statements before it left it.
\<close>

definition assign_command :: "FieldCanvas \<Rightarrow> command \<Rightarrow> outcome \<times> FieldCanvas" where
  "assign_command st command =
     (if selected_waypoint_index st = - 1 then (Rejected NoWaypointSelected, st)
      else
        (case py_getitem (path_points st) (selected_waypoint_index st) of
           None \<Rightarrow> (Raised IndexError, st)
         | Some selected_wp \<Rightarrow>
             if command = Scoop \<and> \<not> pending_clasp st then (Rejected ClaspRequired, st)
             else
               let st1 = (if command = Scoop
                          then st\<lparr> scoops_to_release := scoops_to_release st + 1 \<rparr> else st);
                   st2 = (if command = Clasp then st1\<lparr> pending_clasp := True \<rparr> else st1)
               in if command = Release \<and> scoops_to_release st2 = 0
                  then (Rejected NoScoops, st2)
                  else
                    let st3 = (if command = Release
                               then st2\<lparr> scoops_to_release := 0, pending_clasp := False \<rparr>
                               else st2)
                    in (Done, st3\<lparr> waypoint_commands :=
                                      (waypoint_commands st3)(selected_wp \<mapsto> command) \<rparr>)))"

definition remove_command :: "FieldCanvas \<Rightarrow> outcome \<times> FieldCanvas" where
  "remove_command st =
     (if selected_waypoint_index st = - 1 then (Rejected NoWaypointSelected, st)
      else
        (case py_getitem (path_points st) (selected_waypoint_index st) of
           None \<Rightarrow> (Raised IndexError, st)
         | Some selected_wp \<Rightarrow>
             (Done, st\<lparr> waypoint_commands :=
                          (waypoint_commands st)(selected_wp \<mapsto> CmdNone) \<rparr>)))"

subsection \<open>Geometry and densification\<close>

definition calculate_distance :: "point \<Rightarrow> point \<Rightarrow> real" where
  "calculate_distance p1 p2 = sqrt ((fst p2 - fst p1)\<^sup>2 + (snd p2 - snd p1)\<^sup>2)"

definition calculate_dynamic_speed :: "real \<Rightarrow> real" where
  "calculate_dynamic_speed distance =
     (let base_speed = 40; max_speed = 100;
          speed = base_speed + (distance / 100) * (max_speed - base_speed)
      in min speed max_speed)"

definition calculate_quadratic_bezier_points :: "point \<Rightarrow> point \<Rightarrow> point \<Rightarrow> point list" where
  "calculate_quadratic_bezier_points p1 p2 control =
     map (\<lambda>k. let t = real k / 100 in
               ((1 - t)\<^sup>2 * fst p1 + 2 * (1 - t) * t * fst control + t\<^sup>2 * fst p2,
                (1 - t)\<^sup>2 * snd p1 + 2 * (1 - t) * t * snd control + t\<^sup>2 * snd p2))
         [0..<101]"

text \<open>
  \<^verbatim>\<open>generate_intermediate_points\<close>: \<open>control = None\<close> is the straight case. The float
  division by a zero threshold raises; the threshold of the curve case is only compared.
\<close>

definition generate_intermediate_points ::
    "point \<Rightarrow> point \<Rightarrow> point option \<Rightarrow> real \<Rightarrow> py_exn + point list" where
  "generate_intermediate_points p1 p2 control distance_threshold =
     (case control of
        None \<Rightarrow>
          if distance_threshold = 0 then Inl ZeroDivisionError
          else
            let distance = calculate_distance p1 p2;
                num_points = max 1 (py_int (distance / distance_threshold))
            in Inr (map (\<lambda>i. let t = real_of_int i / real_of_int num_points in
                              (fst p1 + t * (fst p2 - fst p1), snd p1 + t * (snd p2 - snd p1)))
                        [1..num_points])
      | Some c \<Rightarrow>
          let bezier_points = calculate_quadratic_bezier_points p1 p2 c
          in Inr (map (\<lambda>i. bezier_points ! i)
                      (filter (\<lambda>i. calculate_distance (bezier_points ! (i - 1)) (bezier_points ! i)
                                      \<ge> distance_threshold)
                              [1..<length bezier_points])))"

definition calculate_heading :: "point \<Rightarrow> point \<Rightarrow> real" where
  "calculate_heading p1 p2 =
     (let dx = fst p2 - fst p1; dy = snd p2 - snd p1 in degrees (atan2 dy dx))"

subsection \<open>Export\<close>

text \<open>
  A written array entry or transcript line is the instruction it prints: its command tag,
  position, heading and speed. \<open>CMD c\<close> is the tag \<^verbatim>\<open>CMD_<NAME>\<close> of the C file and the
  upper-case command name of the transcript.
\<close>

datatype tag = CMD_MOVE_WITH_HEADING | CMD command

datatype instruction =
  Instr (kind: tag) (ix: real) (iy: real) (iheading: real) (ispeed: real)

text \<open>
  The C file is the fixed declarations (\<open>Header\<close>), one \<open>Entry\<close> per array element, and
  the closing of the array with the element count (\<open>Footer\<close>).
\<close>

datatype c_chunk = Header | Entry instruction | Footer

text \<open>What the call leaves on disk: \<open>None\<close> is a file that was never opened.\<close>

record files =
  c_file :: "c_chunk list option"
  txt_file :: "instruction list option"

definition actuator_line :: "command \<Rightarrow> point \<Rightarrow> real \<Rightarrow> instruction" where
  "actuator_line c p heading = Instr (CMD c) (fst p) (snd p) heading 0"

definition move_line :: "point \<Rightarrow> real \<Rightarrow> point \<Rightarrow> instruction" where
  "move_line p1 heading point =
     (let distance = calculate_distance p1 point;
          speed = calculate_dynamic_speed distance
      in Instr CMD_MOVE_WITH_HEADING (fst point) (snd point) heading speed)"

text \<open>
  The body of the loop for the segment that starts at index \<open>i\<close>: the lines it writes
  and the value it leaves in the local variable \<^verbatim>\<open>heading\<close>. Every statement that
  can raise comes before the first write of the iteration. The class has no method
  \<^verbatim>\<open>calculate_bezier_control_point\<close>: the branch taken while \<^verbatim>\<open>dragging_curve\<close> is
  set raises \<^verbatim>\<open>AttributeError\<close>.
\<close>

definition export_segment :: "FieldCanvas \<Rightarrow> nat \<Rightarrow> py_exn + instruction list \<times> real" where
  "export_segment st i =
     (let p1 = path_points st ! i; p2 = path_points st ! (i + 1) in
      case waypoint_commands st p1 of
        None \<Rightarrow> Inl KeyError
      | Some command \<Rightarrow>
          let heading = calculate_heading p1 p2 in
          if i < length (path_points st) - 1 \<and> dragging_curve st
          then Inl AttributeError
          else
            (case generate_intermediate_points p1 p2 None 3 of
               Inl e \<Rightarrow> Inl e
             | Inr intermediate_points \<Rightarrow>
                 Inr ((if command \<noteq> CmdNone then [actuator_line command p1 heading] else [])
                        @ map (move_line p1 heading) intermediate_points,
                      heading)))"

text \<open>
  The loop, for the indices still to visit. It threads the lines written so far and the
  local variable \<^verbatim>\<open>heading\<close> (\<open>None\<close> while it is unbound), and stops at the first
  exception.
\<close>

fun export_loop ::
    "FieldCanvas \<Rightarrow> nat list \<Rightarrow> instruction list \<Rightarrow> real option
       \<Rightarrow> py_exn option \<times> instruction list \<times> real option" where
  "export_loop st [] out h = (None, out, h)"
| "export_loop st (i # rest) out h =
     (case export_segment st i of
        Inl e \<Rightarrow> (Some e, out, h)
      | Inr (lines, heading) \<Rightarrow> export_loop st rest (out @ lines) (Some heading))"

text \<open>
  The body of one \<^verbatim>\<open>with open(...)\<close> block after the fixed declarations: the loop, then
  the command of the last waypoint. The source repeats this block for the transcript.
\<close>

definition export_body :: "FieldCanvas \<Rightarrow> py_exn option \<times> instruction list" where
  "export_body st =
     (case export_loop st [0..<length (path_points st) - 1] [] None of
        (Some e, out, h) \<Rightarrow> (Some e, out)
      | (None, out, h) \<Rightarrow>
          (case py_getitem (path_points st) (- 1) of
             None \<Rightarrow> (Some IndexError, out)
           | Some final_point \<Rightarrow>
               (case waypoint_commands st final_point of
                  None \<Rightarrow> (Some KeyError, out)
                | Some final_command \<Rightarrow>
                    if final_command \<noteq> CmdNone then
                      (case h of
                         None \<Rightarrow> (Some NameError, out)
                       | Some heading \<Rightarrow>
                           (None, out @ [actuator_line final_command final_point heading]))
                    else (None, out))))"

text \<open>
  \<^verbatim>\<open>export_to_files\<close>: the C file is opened and its declarations are written before
  anything is computed; an exception leaves the file with what was written until then, and
  the transcript is opened only after the C file was completed.
\<close>

definition export_to_files :: "FieldCanvas \<Rightarrow> outcome \<times> files" where
  "export_to_files st =
     (case export_body st of
        (Some e, out) \<Rightarrow>
          (Raised e, \<lparr> c_file = Some (Header # map Entry out), txt_file = None \<rparr>)
      | (None, out) \<Rightarrow>
          let c = Header # map Entry out @ [Footer] in
          (case export_body st of
             (Some e, lines) \<Rightarrow> (Raised e, \<lparr> c_file = Some c, txt_file = Some lines \<rparr>)
           | (None, lines) \<Rightarrow> (Done, \<lparr> c_file = Some c, txt_file = Some lines \<rparr>)))"

subsection \<open>Concrete editing sessions\<close>

text \<open>One start waypoint at \<open>(50, 50)\<close>, selected with the Up key; no side restriction.\<close>

definition one_selected :: FieldCanvas where
  "one_selected =
     snd (cycle_waypoint (snd (add_straight_line (init_canvas SideNone) (50, 50))) 1)"

text \<open>
  Scenario E: the left side is selected, the centre line is at \<open>x = 150\<close>, and a start
  waypoint has been placed at \<open>(20, 20)\<close>.
\<close>

definition scenario_E :: FieldCanvas where
  "scenario_E =
     snd (add_straight_line ((init_canvas SideLeft)\<lparr> central_line_x := 150 \<rparr>) (20, 20))"

text \<open>
  A start waypoint at \<open>(10, 10)\<close>, then the left button pressed at \<open>(20, 20)\<close> and not
  yet released.
\<close>

definition open_gesture :: FieldCanvas where
  "open_gesture =
     snd (start_curve_point (snd (add_straight_line (init_canvas SideNone) (10, 10))) (20, 20))"

text \<open>
  A path that returns to its start: \<open>(10, 10)\<close>, \<open>(60, 10)\<close>, \<open>(10, 10)\<close>, with the first
  waypoint selected.
\<close>

definition revisit :: FieldCanvas where
  "revisit =
     snd (cycle_waypoint
       (snd (add_straight_line
         (snd (add_straight_line
           (snd (add_straight_line (init_canvas SideNone) (10, 10))) (60, 10))) (10, 10))) 1)"

text \<open>Scenario A: the path \<open>(0, 0)\<close>, \<open>(100, 0)\<close>, both waypoints with command None.\<close>

definition scenario_A :: FieldCanvas where
  "scenario_A =
     snd (add_straight_line (snd (add_straight_line (init_canvas SideNone) (0, 0))) (100, 0))"

text \<open>A single start waypoint at \<open>(50, 50)\<close>, nothing selected.\<close>

definition one_start :: FieldCanvas where
  "one_start = snd (add_straight_line (init_canvas SideNone) (50, 50))"

text \<open>Scenario A with the last waypoint selected (Up pressed twice) and Place assigned.\<close>

definition place_at_end :: FieldCanvas where
  "place_at_end =
     snd (assign_command (snd (cycle_waypoint (snd (cycle_waypoint scenario_A 1)) 1)) Place)"

subsection \<open>The curve filter of the specification\<close>



section \<open>Properties\<close>

subsection \<open>Auxiliary facts\<close>

lemma py_getitem_nat: "i < length xs \<Longrightarrow> py_getitem xs (int i) = Some (xs ! i)"
  by (simp add: py_getitem_def Let_def)

lemma one_selected_eq:
  "one_selected = (init_canvas SideNone)\<lparr> path_points := [(50, 50)],
      waypoint_commands := [(50, 50) \<mapsto> CmdNone], selected_waypoint_index := 0 \<rparr>"
  by (simp add: one_selected_def cycle_waypoint_def add_straight_line_def is_valid_point_def
      init_canvas_def add_starting_point_def Let_def)

subsection \<open>Command bookkeeping\<close>

text \<open>
  Claim C3. With a waypoint selected and a scoop counter that is not negative, assigning a
  command follows the transition table: Clasp always succeeds and sets the clasp flag;
  Scoop succeeds exactly when the clasp flag is set, and then adds one to the scoop counter
  and leaves the flag alone (otherwise the Clasp Required dialog, nothing changed); Release
  succeeds exactly when the counter is positive, and then sets the counter to 0 and clears
  the flag (otherwise the No Scoops dialog, nothing changed); Pick Up, Place and None
  always succeed and change neither flag nor counter. Each success stores the command for
  the selected waypoint. Clasp, Scoop, Release in a row all succeed and end with the flag
  cleared and the counter at 0.
\<close>

theorem assign_command_table:
  assumes "selected_waypoint_index st \<noteq> - 1"
    and "py_getitem (path_points st) (selected_waypoint_index st) = Some wp"
    and "0 \<le> scoops_to_release st"
  shows "assign_command st Clasp =
           (Done, st\<lparr> pending_clasp := True,
                      waypoint_commands := (waypoint_commands st)(wp \<mapsto> Clasp) \<rparr>)
       \<and> assign_command st Scoop =
           (if pending_clasp st
            then (Done, st\<lparr> scoops_to_release := scoops_to_release st + 1,
                            waypoint_commands := (waypoint_commands st)(wp \<mapsto> Scoop) \<rparr>)
            else (Rejected ClaspRequired, st))
       \<and> assign_command st Release =
           (if 0 < scoops_to_release st
            then (Done, st\<lparr> scoops_to_release := 0, pending_clasp := False,
                            waypoint_commands := (waypoint_commands st)(wp \<mapsto> Release) \<rparr>)
            else (Rejected NoScoops, st))
       \<and> assign_command st PickUp =
           (Done, st\<lparr> waypoint_commands := (waypoint_commands st)(wp \<mapsto> PickUp) \<rparr>)
       \<and> assign_command st Place =
           (Done, st\<lparr> waypoint_commands := (waypoint_commands st)(wp \<mapsto> Place) \<rparr>)
       \<and> assign_command st CmdNone =
           (Done, st\<lparr> waypoint_commands := (waypoint_commands st)(wp \<mapsto> CmdNone) \<rparr>)
       \<and> (\<exists>s1 s2 s3. assign_command st Clasp = (Done, s1)
              \<and> assign_command s1 Scoop = (Done, s2)
              \<and> assign_command s2 Release = (Done, s3)
              \<and> pending_clasp s3 = False \<and> scoops_to_release s3 = 0)"
proof -
  have t1: "assign_command st Clasp =
           (Done, st\<lparr> pending_clasp := True,
                      waypoint_commands := (waypoint_commands st)(wp \<mapsto> Clasp) \<rparr>)"
    using assms by (simp add: assign_command_def)
  have t2: "assign_command st Scoop =
           (if pending_clasp st
            then (Done, st\<lparr> scoops_to_release := scoops_to_release st + 1,
                            waypoint_commands := (waypoint_commands st)(wp \<mapsto> Scoop) \<rparr>)
            else (Rejected ClaspRequired, st))"
    using assms by (simp add: assign_command_def)
  have t3: "assign_command st Release =
           (if 0 < scoops_to_release st
            then (Done, st\<lparr> scoops_to_release := 0, pending_clasp := False,
                            waypoint_commands := (waypoint_commands st)(wp \<mapsto> Release) \<rparr>)
            else (Rejected NoScoops, st))"
    using assms by (auto simp add: assign_command_def)
  have t4: "assign_command st PickUp =
           (Done, st\<lparr> waypoint_commands := (waypoint_commands st)(wp \<mapsto> PickUp) \<rparr>)"
    using assms by (simp add: assign_command_def)
  have t5: "assign_command st Place =
           (Done, st\<lparr> waypoint_commands := (waypoint_commands st)(wp \<mapsto> Place) \<rparr>)"
    using assms by (simp add: assign_command_def)
  have t6: "assign_command st CmdNone =
           (Done, st\<lparr> waypoint_commands := (waypoint_commands st)(wp \<mapsto> CmdNone) \<rparr>)"
    using assms by (simp add: assign_command_def)
  define s1 where "s1 = st\<lparr> pending_clasp := True,
                      waypoint_commands := (waypoint_commands st)(wp \<mapsto> Clasp) \<rparr>"
  define s2 where "s2 = s1\<lparr> scoops_to_release := scoops_to_release s1 + 1,
                            waypoint_commands := (waypoint_commands s1)(wp \<mapsto> Scoop) \<rparr>"
  define s3 where "s3 = s2\<lparr> scoops_to_release := 0, pending_clasp := False,
                            waypoint_commands := (waypoint_commands s2)(wp \<mapsto> Release) \<rparr>"
  have a1: "assign_command st Clasp = (Done, s1)" using t1 by (simp add: s1_def)
  have a2: "assign_command s1 Scoop = (Done, s2)"
    using assms by (simp add: assign_command_def s1_def s2_def)
  have a3: "assign_command s2 Release = (Done, s3)"
    using assms by (simp add: assign_command_def s1_def s2_def s3_def)
  have a4: "pending_clasp s3 = False \<and> scoops_to_release s3 = 0" by (simp add: s3_def)
  from a1 a2 a3 a4 have t7: "\<exists>s1 s2 s3. assign_command st Clasp = (Done, s1)
              \<and> assign_command s1 Scoop = (Done, s2)
              \<and> assign_command s2 Release = (Done, s3)
              \<and> pending_clasp s3 = False \<and> scoops_to_release s3 = 0" by blast
  from t1 t2 t3 t4 t5 t6 t7 show ?thesis by blast
qed

theorem assign_command_table_witness:
  "selected_waypoint_index one_selected \<noteq> - 1
   \<and> py_getitem (path_points one_selected) (selected_waypoint_index one_selected) = Some (50, 50)
   \<and> 0 \<le> scoops_to_release one_selected
   \<and> assign_command one_selected Scoop = (Rejected ClaspRequired, one_selected)
   \<and> assign_command one_selected Release = (Rejected NoScoops, one_selected)
   \<and> fst (assign_command one_selected Clasp) = Done
   \<and> pending_clasp (snd (assign_command one_selected Clasp))"
proof -
  have h1: "selected_waypoint_index one_selected \<noteq> - 1"
    by (simp add: one_selected_eq)
  have h2: "py_getitem (path_points one_selected) (selected_waypoint_index one_selected)
              = Some (50, 50)"
    by (simp add: one_selected_eq py_getitem_def)
  have h3: "0 \<le> scoops_to_release one_selected"
    by (simp add: one_selected_eq init_canvas_def)
  have h4: "\<not> pending_clasp one_selected" "\<not> 0 < scoops_to_release one_selected"
    by (simp_all add: one_selected_eq init_canvas_def)
  show ?thesis
    using assign_command_table [OF h1 h2 h3] h1 h2 h3 h4 by simp
qed

text \<open>
  Claim C4. A rejected assignment is atomic: when \<open>assign_command\<close> ends with an error
  dialog (No Waypoint Selected, Clasp Required or No Scoops), the state it leaves is the
  state it started from; in particular the stored commands, the clasp flag and the scoop
  counter are as before.
\<close>

theorem assign_command_rejection_atomic:
  assumes "assign_command st c = (Rejected d, st')"
  shows "st' = st
       \<and> waypoint_commands st' = waypoint_commands st
       \<and> pending_clasp st' = pending_clasp st
       \<and> scoops_to_release st' = scoops_to_release st
       \<and> (d = NoWaypointSelected \<or> d = ClaspRequired \<or> d = NoScoops)"
proof -
  have "st' = st \<and> (d = NoWaypointSelected \<or> d = ClaspRequired \<or> d = NoScoops)"
    using assms
    by (auto simp add: assign_command_def Let_def split: if_splits option.splits)
  then show ?thesis by simp
qed

theorem assign_command_rejection_atomic_witness:
  "assign_command one_selected Scoop = (Rejected ClaspRequired, one_selected)
   \<and> waypoint_commands one_selected (50, 50) = Some CmdNone
   \<and> waypoint_commands (snd (assign_command one_selected Scoop)) (50, 50) = Some CmdNone"
proof -
  have a: "assign_command one_selected Scoop = (Rejected ClaspRequired, one_selected)"
    by (simp add: assign_command_def one_selected_eq py_getitem_def init_canvas_def)
  have b: "waypoint_commands one_selected (50, 50) = Some CmdNone"
    by (simp add: one_selected_eq)
  show ?thesis
    using assign_command_rejection_atomic [OF a] a b by simp
qed

subsection \<open>Side restriction\<close>

lemma scenario_E_eq:
  "scenario_E = (init_canvas SideLeft)\<lparr> central_line_x := 150, path_points := [(20, 20)],
      waypoint_commands := [(20, 20) \<mapsto> CmdNone] \<rparr>"
  by (simp add: scenario_E_def add_straight_line_def is_valid_point_def
      init_canvas_def add_starting_point_def CENTRAL_LINE_OFFSET_def)

lemma add_straight_line_valid:
  "is_valid_point st (fst p) = None \<Longrightarrow>
     add_straight_line st p =
       (Done, st\<lparr> path_points := path_points st @ [p],
                  waypoint_commands := (waypoint_commands st)(p \<mapsto> CmdNone) \<rparr>)"
  by (simp add: add_straight_line_def add_starting_point_def)

lemma start_curve_point_valid:
  "is_valid_point st (fst p) = None \<Longrightarrow>
     fst (start_curve_point st p) = Done
     \<and> path_points (snd (start_curve_point st p)) = path_points st @ [p]
     \<and> waypoint_commands (snd (start_curve_point st p)) = (waypoint_commands st)(p \<mapsto> CmdNone)"
  by (simp add: start_curve_point_def add_starting_point_def)

lemma invalid_point_rejected:
  "is_valid_point st (fst p) = Some d \<Longrightarrow>
     add_straight_line st p = (Rejected d, st) \<and> start_curve_point st p = (Rejected d, st)"
  by (simp add: add_straight_line_def start_curve_point_def)

text \<open>
  Claim C8. With the left side selected, a click at \<open>p\<close> (right click: start or straight
  waypoint; left click: start or curve waypoint) is rejected with the Invalid Point dialog,
  the state unchanged, exactly when the x coordinate of \<open>p\<close> exceeds the centre line minus
  the offset; otherwise the click succeeds and appends \<open>p\<close>. With the right side selected
  the same holds for x below the centre line plus the offset. The offset is 10; with the
  centre line at 150 and the left side selected, a straight waypoint at x = 145 is rejected
  and one at x = 140 is appended.
\<close>

theorem side_restriction_exact:
  "(selected_side st = SideLeft \<longrightarrow>
      (add_straight_line st p = (Rejected InvalidPoint, st))
         = (fst p > central_line_x st - CENTRAL_LINE_OFFSET)
    \<and> (start_curve_point st p = (Rejected InvalidPoint, st))
         = (fst p > central_line_x st - CENTRAL_LINE_OFFSET)
    \<and> (fst (add_straight_line st p) = Done
          \<and> path_points (snd (add_straight_line st p)) = path_points st @ [p])
         = (\<not> fst p > central_line_x st - CENTRAL_LINE_OFFSET)
    \<and> (fst (start_curve_point st p) = Done
          \<and> path_points (snd (start_curve_point st p)) = path_points st @ [p])
         = (\<not> fst p > central_line_x st - CENTRAL_LINE_OFFSET))
   \<and> (selected_side st = SideRight \<longrightarrow>
      (add_straight_line st p = (Rejected InvalidPoint, st))
         = (fst p < central_line_x st + CENTRAL_LINE_OFFSET)
    \<and> (start_curve_point st p = (Rejected InvalidPoint, st))
         = (fst p < central_line_x st + CENTRAL_LINE_OFFSET)
    \<and> (fst (add_straight_line st p) = Done
          \<and> path_points (snd (add_straight_line st p)) = path_points st @ [p])
         = (\<not> fst p < central_line_x st + CENTRAL_LINE_OFFSET)
    \<and> (fst (start_curve_point st p) = Done
          \<and> path_points (snd (start_curve_point st p)) = path_points st @ [p])
         = (\<not> fst p < central_line_x st + CENTRAL_LINE_OFFSET))
   \<and> CENTRAL_LINE_OFFSET = 10
   \<and> selected_side scenario_E = SideLeft \<and> central_line_x scenario_E = 150
   \<and> add_straight_line scenario_E (145, 50) = (Rejected InvalidPoint, scenario_E)
   \<and> fst (add_straight_line scenario_E (140, 50)) = Done
   \<and> path_points (snd (add_straight_line scenario_E (140, 50))) = [(20, 20), (140, 50)]"
proof -
  have left: "selected_side st = SideLeft \<Longrightarrow>
      is_valid_point st (fst p) =
        (if fst p > central_line_x st - CENTRAL_LINE_OFFSET then Some InvalidPoint else None)"
    by (simp add: is_valid_point_def)
  have right: "selected_side st = SideRight \<Longrightarrow>
      is_valid_point st (fst p) =
        (if fst p < central_line_x st + CENTRAL_LINE_OFFSET then Some InvalidPoint else None)"
    by (simp add: is_valid_point_def)
  have L: "selected_side st = SideLeft \<longrightarrow>
      (add_straight_line st p = (Rejected InvalidPoint, st))
         = (fst p > central_line_x st - CENTRAL_LINE_OFFSET)
    \<and> (start_curve_point st p = (Rejected InvalidPoint, st))
         = (fst p > central_line_x st - CENTRAL_LINE_OFFSET)
    \<and> (fst (add_straight_line st p) = Done
          \<and> path_points (snd (add_straight_line st p)) = path_points st @ [p])
         = (\<not> fst p > central_line_x st - CENTRAL_LINE_OFFSET)
    \<and> (fst (start_curve_point st p) = Done
          \<and> path_points (snd (start_curve_point st p)) = path_points st @ [p])
         = (\<not> fst p > central_line_x st - CENTRAL_LINE_OFFSET)"
  proof
    assume s: "selected_side st = SideLeft"
    show "(add_straight_line st p = (Rejected InvalidPoint, st))
         = (fst p > central_line_x st - CENTRAL_LINE_OFFSET)
    \<and> (start_curve_point st p = (Rejected InvalidPoint, st))
         = (fst p > central_line_x st - CENTRAL_LINE_OFFSET)
    \<and> (fst (add_straight_line st p) = Done
          \<and> path_points (snd (add_straight_line st p)) = path_points st @ [p])
         = (\<not> fst p > central_line_x st - CENTRAL_LINE_OFFSET)
    \<and> (fst (start_curve_point st p) = Done
          \<and> path_points (snd (start_curve_point st p)) = path_points st @ [p])
         = (\<not> fst p > central_line_x st - CENTRAL_LINE_OFFSET)"
    proof (cases "fst p > central_line_x st - CENTRAL_LINE_OFFSET")
      case True
      with left [OF s] have "is_valid_point st (fst p) = Some InvalidPoint" by simp
      from invalid_point_rejected [OF this] True show ?thesis by simp
    next
      case False
      with left [OF s] have v: "is_valid_point st (fst p) = None" by simp
      have n: "start_curve_point st p \<noteq> (Rejected InvalidPoint, st)"
        using start_curve_point_valid [OF v] by (metis fst_conv outcome.distinct(1))
      from add_straight_line_valid [OF v] start_curve_point_valid [OF v] n False
      show ?thesis by simp
    qed
  qed
  have R: "selected_side st = SideRight \<longrightarrow>
      (add_straight_line st p = (Rejected InvalidPoint, st))
         = (fst p < central_line_x st + CENTRAL_LINE_OFFSET)
    \<and> (start_curve_point st p = (Rejected InvalidPoint, st))
         = (fst p < central_line_x st + CENTRAL_LINE_OFFSET)
    \<and> (fst (add_straight_line st p) = Done
          \<and> path_points (snd (add_straight_line st p)) = path_points st @ [p])
         = (\<not> fst p < central_line_x st + CENTRAL_LINE_OFFSET)
    \<and> (fst (start_curve_point st p) = Done
          \<and> path_points (snd (start_curve_point st p)) = path_points st @ [p])
         = (\<not> fst p < central_line_x st + CENTRAL_LINE_OFFSET)"
  proof
    assume s: "selected_side st = SideRight"
    show "(add_straight_line st p = (Rejected InvalidPoint, st))
         = (fst p < central_line_x st + CENTRAL_LINE_OFFSET)
    \<and> (start_curve_point st p = (Rejected InvalidPoint, st))
         = (fst p < central_line_x st + CENTRAL_LINE_OFFSET)
    \<and> (fst (add_straight_line st p) = Done
          \<and> path_points (snd (add_straight_line st p)) = path_points st @ [p])
         = (\<not> fst p < central_line_x st + CENTRAL_LINE_OFFSET)
    \<and> (fst (start_curve_point st p) = Done
          \<and> path_points (snd (start_curve_point st p)) = path_points st @ [p])
         = (\<not> fst p < central_line_x st + CENTRAL_LINE_OFFSET)"
    proof (cases "fst p < central_line_x st + CENTRAL_LINE_OFFSET")
      case True
      with right [OF s] have "is_valid_point st (fst p) = Some InvalidPoint" by simp
      from invalid_point_rejected [OF this] True show ?thesis by simp
    next
      case False
      with right [OF s] have v: "is_valid_point st (fst p) = None" by simp
      have n: "start_curve_point st p \<noteq> (Rejected InvalidPoint, st)"
        using start_curve_point_valid [OF v] by (metis fst_conv outcome.distinct(1))
      from add_straight_line_valid [OF v] start_curve_point_valid [OF v] n False
      show ?thesis by simp
    qed
  qed
  have E1: "selected_side scenario_E = SideLeft \<and> central_line_x scenario_E = 150"
    by (simp add: scenario_E_eq init_canvas_def)
  have E2: "add_straight_line scenario_E (145, 50) = (Rejected InvalidPoint, scenario_E)"
    by (simp add: add_straight_line_def is_valid_point_def E1 CENTRAL_LINE_OFFSET_def)
  have v: "is_valid_point scenario_E (fst (140 :: real, 50 :: real)) = None"
    by (simp add: is_valid_point_def E1 CENTRAL_LINE_OFFSET_def)
  have E3: "fst (add_straight_line scenario_E (140, 50)) = Done
     \<and> path_points (snd (add_straight_line scenario_E (140, 50))) = [(20, 20), (140, 50)]"
    using add_straight_line_valid [OF v] by (simp add: scenario_E_eq)
  from L R E1 E2 E3 show ?thesis by (simp add: CENTRAL_LINE_OFFSET_def)
qed

theorem side_restriction_exact_witness:
  "selected_side scenario_E = SideLeft
   \<and> fst (145 :: real, 50 :: real) > central_line_x scenario_E - CENTRAL_LINE_OFFSET
   \<and> start_curve_point scenario_E (145, 50) = (Rejected InvalidPoint, scenario_E)"
proof -
  have h: "selected_side scenario_E = SideLeft"
    by (simp add: scenario_E_eq init_canvas_def)
  have g: "fst (145 :: real, 50 :: real) > central_line_x scenario_E - CENTRAL_LINE_OFFSET"
    by (simp add: scenario_E_eq CENTRAL_LINE_OFFSET_def)
  from side_restriction_exact [of scenario_E "(145, 50)"] h g
  have "start_curve_point scenario_E (145, 50) = (Rejected InvalidPoint, scenario_E)"
    by blast
  with h g show ?thesis by blast
qed

subsection \<open>Curve gestures\<close>

lemma open_gesture_eq:
  "open_gesture = (init_canvas SideNone)\<lparr> path_points := [(10, 10), (20, 20)],
      waypoint_commands := [(10, 10) \<mapsto> CmdNone, (20, 20) \<mapsto> CmdNone],
      dragging_curve := True \<rparr>"
  by (simp add: open_gesture_def start_curve_point_def add_straight_line_def is_valid_point_def
      init_canvas_def add_starting_point_def)

text \<open>
  Claim C9, as the code has it. While a curve gesture is open, a click that passes the side
  restriction is not rejected: a right click appends a straight waypoint and a left click
  appends a curve waypoint, each with command None, and the gesture stays open. No
  operation has a result for a curve in progress.
\<close>

theorem open_gesture_accepts_waypoints:
  assumes "dragging_curve st" and "is_valid_point st (fst p) = None"
  shows "add_straight_line st p =
           (Done, st\<lparr> path_points := path_points st @ [p],
                      waypoint_commands := (waypoint_commands st)(p \<mapsto> CmdNone) \<rparr>)
       \<and> start_curve_point st p =
           (Done, st\<lparr> path_points := path_points st @ [p],
                      waypoint_commands := (waypoint_commands st)(p \<mapsto> CmdNone) \<rparr>)
       \<and> dragging_curve (snd (add_straight_line st p))
       \<and> dragging_curve (snd (start_curve_point st p))"
proof -
  have a: "add_straight_line st p =
           (Done, st\<lparr> path_points := path_points st @ [p],
                      waypoint_commands := (waypoint_commands st)(p \<mapsto> CmdNone) \<rparr>)"
    using assms(2) by (rule add_straight_line_valid)
  have b: "start_curve_point st p =
           (Done, st\<lparr> path_points := path_points st @ [p],
                      waypoint_commands := (waypoint_commands st)(p \<mapsto> CmdNone) \<rparr>)"
    using assms by (simp add: start_curve_point_def add_starting_point_def)
  from a b assms(1) show ?thesis by simp
qed

theorem open_gesture_accepts_waypoints_witness:
  "dragging_curve open_gesture \<and> is_valid_point open_gesture (fst (30 :: real, 30 :: real)) = None
   \<and> fst (start_curve_point open_gesture (30, 30)) = Done
   \<and> path_points (snd (start_curve_point open_gesture (30, 30)))
       = [(10, 10), (20, 20), (30, 30)]"
proof -
  have d: "dragging_curve open_gesture" by (simp add: open_gesture_eq)
  have v: "is_valid_point open_gesture (fst (30 :: real, 30 :: real)) = None"
    by (simp add: is_valid_point_def open_gesture_eq init_canvas_def)
  show ?thesis
    using open_gesture_accepts_waypoints [OF d v] d v by (simp add: open_gesture_eq)
qed

text \<open>
  The claim as the specification states it fails: with the gesture of \<open>open_gesture\<close>
  open, a right click at \<open>(30, 30)\<close> succeeds and the path grows to three waypoints.
\<close>

theorem curve_in_progress_counterexample:
  "dragging_curve open_gesture
   \<and> path_points open_gesture = [(10, 10), (20, 20)]
   \<and> fst (add_straight_line open_gesture (30, 30)) = Done
   \<and> path_points (snd (add_straight_line open_gesture (30, 30)))
       = [(10, 10), (20, 20), (30, 30)]"
  by (simp add: add_straight_line_def is_valid_point_def open_gesture_eq init_canvas_def)

subsection \<open>Densification of a straight segment\<close>

lemma py_int_nonneg: "0 \<le> r \<Longrightarrow> py_int r = \<lfloor>r\<rfloor>"
  by (simp add: py_int_def)

lemma calculate_distance_nonneg: "0 \<le> calculate_distance p q"
  by (simp add: calculate_distance_def)

lemma straight_points_eq:
  assumes "0 < d"
  shows "generate_intermediate_points p1 p2 None d =
     Inr (map (\<lambda>i. (fst p1 + (real_of_int i / real_of_int (max 1 \<lfloor>calculate_distance p1 p2 / d\<rfloor>))
                         * (fst p2 - fst p1),
                    snd p1 + (real_of_int i / real_of_int (max 1 \<lfloor>calculate_distance p1 p2 / d\<rfloor>))
                         * (snd p2 - snd p1)))
              [1..max 1 \<lfloor>calculate_distance p1 p2 / d\<rfloor>])"
proof -
  have "0 \<le> calculate_distance p1 p2 / d"
    using assms calculate_distance_nonneg [of p1 p2] by simp
  then have "py_int (calculate_distance p1 p2 / d) = \<lfloor>calculate_distance p1 p2 / d\<rfloor>"
    by (rule py_int_nonneg)
  then show ?thesis
    using assms by (simp add: generate_intermediate_points_def Let_def)
qed

lemma scenario_A_eq:
  "scenario_A = (init_canvas SideNone)\<lparr> path_points := [(0, 0), (100, 0)],
      waypoint_commands := [(0, 0) \<mapsto> CmdNone, (100, 0) \<mapsto> CmdNone] \<rparr>"
  by (simp add: scenario_A_def add_straight_line_def is_valid_point_def
      init_canvas_def add_starting_point_def)

lemma distance_scenario_A: "calculate_distance (0, 0) (100, 0) = 100"
proof -
  have "sqrt ((100 :: real)\<^sup>2) = 100" by (simp only: real_sqrt_abs abs_numeral)
  then show ?thesis by (simp add: calculate_distance_def)
qed

lemma heading_scenario_A: "calculate_heading (0, 0) (100, 0) = 0"
  by (simp add: calculate_heading_def atan2_def degrees_def)

lemma floor_scenario_A: "max 1 \<lfloor>(100 :: real) / 3\<rfloor> = 33"
  by simp

lemma length_upto_from_1: "length [1..n] = nat n"
  by simp

lemma nth_upto_from_1: "k < nat n \<Longrightarrow> [1..n] ! k = 1 + int k"
  by (simp add: nth_upto)

text \<open>
  Claim C5. For a positive threshold \<open>d\<close> the straight case returns exactly
  \<open>n = max 1 \<lfloor>distance p1 p2 / d\<rfloor>\<close> points; for \<open>i = 1, \<dots>, n\<close> the \<open>i\<close>-th
  of them is the point at parameter \<open>i / n\<close> on the line from \<open>p1\<close> to \<open>p2\<close>, and the
  last one is \<open>p2\<close>. For the path \<open>(0, 0)\<close>, \<open>(100, 0)\<close> the export succeeds and both
  files hold the same 33 instructions, all of them moves with heading 0.
\<close>

theorem straight_densification:
  assumes "0 < d" and "n = max 1 \<lfloor>calculate_distance p1 p2 / d\<rfloor>"
  shows "(\<exists>pts. generate_intermediate_points p1 p2 None d = Inr pts
          \<and> length pts = nat n
          \<and> (\<forall>i. 1 \<le> i \<and> i \<le> n \<longrightarrow>
                pts ! (nat i - 1) =
                  (fst p1 + (real_of_int i / real_of_int n) * (fst p2 - fst p1),
                   snd p1 + (real_of_int i / real_of_int n) * (snd p2 - snd p1)))
          \<and> last pts = p2)
       \<and> (\<exists>moves. export_to_files scenario_A =
            (Done, \<lparr> c_file = Some (Header # map Entry moves @ [Footer]),
                     txt_file = Some moves \<rparr>)
          \<and> length moves = 33
          \<and> (\<forall>m \<in> set moves. kind m = CMD_MOVE_WITH_HEADING \<and> iheading m = 0))"
proof
  define f where "f = (\<lambda>i. (fst p1 + (real_of_int i / real_of_int n) * (fst p2 - fst p1),
                   snd p1 + (real_of_int i / real_of_int n) * (snd p2 - snd p1)))"
  define pts where "pts = map f [1..n]"
  have n1: "1 \<le> n" using assms(2) by simp
  have g: "generate_intermediate_points p1 p2 None d = Inr pts"
    using straight_points_eq [OF assms(1), of p1 p2] assms(2) by (simp add: pts_def f_def)
  have len: "length pts = nat n" by (simp add: pts_def)
  have nth: "pts ! (nat i - 1) = f i" if "1 \<le> i" "i \<le> n" for i
  proof -
    have k: "nat i - 1 < nat n" using that by linarith
    have "[1..n] ! (nat i - 1) = 1 + int (nat i - 1)" using k by (rule nth_upto_from_1)
    also have "\<dots> = i" using that by simp
    finally show ?thesis using k by (simp add: pts_def)
  qed
  have ne: "pts \<noteq> []" using len n1 by auto
  have "last pts = pts ! (nat n - 1)" using ne len by (simp add: last_conv_nth)
  also have "\<dots> = f n" using nth [of n] n1 by simp
  also have "\<dots> = p2" using n1 by (simp add: f_def)
  finally have lst: "last pts = p2" .
  from g len nth lst show "\<exists>pts. generate_intermediate_points p1 p2 None d = Inr pts
          \<and> length pts = nat n
          \<and> (\<forall>i. 1 \<le> i \<and> i \<le> n \<longrightarrow>
                pts ! (nat i - 1) =
                  (fst p1 + (real_of_int i / real_of_int n) * (fst p2 - fst p1),
                   snd p1 + (real_of_int i / real_of_int n) * (snd p2 - snd p1)))
          \<and> last pts = p2"
    unfolding f_def by blast
next
  define sub where "sub = map (\<lambda>i. (0 + (real_of_int i / real_of_int 33) * (100 - 0),
                                   0 + (real_of_int i / real_of_int 33) * (0 - 0)) :: point) [1..33]"
  define moves where "moves = map (move_line (0, 0) 0) sub"
  have g: "generate_intermediate_points (0, 0) (100, 0) None 3 = Inr sub"
    using straight_points_eq [of 3 "(0, 0)" "(100, 0)"]
    by (simp only: distance_scenario_A floor_scenario_A sub_def fst_conv snd_conv)
  have seg: "export_segment scenario_A 0 = Inr (moves, 0)"
    by (simp add: export_segment_def scenario_A_eq init_canvas_def heading_scenario_A g moves_def)
  have l: "[0..<length (path_points scenario_A) - 1] = [0]"
    by (simp add: scenario_A_eq)
  have loop: "export_loop scenario_A [0..<length (path_points scenario_A) - 1] [] None
                = (None, moves, Some 0)"
    by (simp only: l) (simp add: seg)
  have fin: "py_getitem (path_points scenario_A) (- 1) = Some (100, 0)"
    by (simp add: scenario_A_eq py_getitem_def)
  have cmd: "waypoint_commands scenario_A (100, 0) = Some CmdNone"
    by (simp add: scenario_A_eq)
  have body: "export_body scenario_A = (None, moves)"
    unfolding export_body_def loop by (simp add: fin cmd)
  have ex: "export_to_files scenario_A =
            (Done, \<lparr> c_file = Some (Header # map Entry moves @ [Footer]),
                     txt_file = Some moves \<rparr>)"
    by (simp add: export_to_files_def body)
  have len: "length moves = 33" by (simp add: moves_def sub_def)
  have all: "\<forall>m \<in> set moves. kind m = CMD_MOVE_WITH_HEADING \<and> iheading m = 0"
    by (auto simp add: moves_def move_line_def Let_def)
  from ex len all show "\<exists>moves. export_to_files scenario_A =
            (Done, \<lparr> c_file = Some (Header # map Entry moves @ [Footer]),
                     txt_file = Some moves \<rparr>)
          \<and> length moves = 33
          \<and> (\<forall>m \<in> set moves. kind m = CMD_MOVE_WITH_HEADING \<and> iheading m = 0)"
    by blast
qed

theorem straight_densification_witness:
  "(0 :: real) < 3
   \<and> (33 :: int) = max 1 \<lfloor>calculate_distance (0, 0) (100, 0) / 3\<rfloor>
   \<and> (\<exists>pts. generate_intermediate_points (0, 0) (100, 0) None 3 = Inr pts
          \<and> length pts = 33 \<and> pts ! 0 = (100 / 33, 0) \<and> last pts = (100, 0))"
proof -
  have h1: "(0 :: real) < 3" by simp
  have h2: "(33 :: int) = max 1 \<lfloor>calculate_distance (0, 0) (100, 0) / 3\<rfloor>"
    by (simp add: distance_scenario_A)
  from straight_densification [OF h1 h2]
  obtain pts where g: "generate_intermediate_points (0, 0) (100, 0) None 3 = Inr pts"
    and len: "length pts = nat 33"
    and nth: "\<forall>i. 1 \<le> i \<and> i \<le> 33 \<longrightarrow>
                pts ! (nat i - 1) =
                  (fst (0 :: real, 0 :: real) + (real_of_int i / real_of_int 33) * (fst (100 :: real, 0 :: real) - fst (0 :: real, 0 :: real)),
                   snd (0 :: real, 0 :: real) + (real_of_int i / real_of_int 33) * (snd (100 :: real, 0 :: real) - snd (0 :: real, 0 :: real)))"
    and lst: "last pts = (100, 0)"
    by blast
  from nth [rule_format, of 1] have first: "pts ! 0 = (100 / 33, 0)" by simp
  from g len first lst have "\<exists>pts. generate_intermediate_points (0, 0) (100, 0) None 3 = Inr pts
          \<and> length pts = 33 \<and> pts ! 0 = (100 / 33, 0) \<and> last pts = (100, 0)"
    by simp
  with h1 h2 show ?thesis by blast
qed

subsection \<open>The export loop\<close>

lemma straight_points_default: "\<exists>pts. generate_intermediate_points p1 p2 None 3 = Inr pts"
  using straight_points_eq [of 3 p1 p2] by simp

lemma export_segment_ok:
  assumes "\<not> dragging_curve st" and "waypoint_commands st (path_points st ! i) = Some c"
  shows "\<exists>pts. export_segment st i =
           Inr ((if c \<noteq> CmdNone
                 then [actuator_line c (path_points st ! i)
                         (calculate_heading (path_points st ! i) (path_points st ! (i + 1)))]
                 else [])
                @ map (move_line (path_points st ! i)
                         (calculate_heading (path_points st ! i) (path_points st ! (i + 1)))) pts,
                calculate_heading (path_points st ! i) (path_points st ! (i + 1)))"
proof -
  obtain pts where
    "generate_intermediate_points (path_points st ! i) (path_points st ! (i + 1)) None 3 = Inr pts"
    using straight_points_default by blast
  then have "export_segment st i =
           Inr ((if c \<noteq> CmdNone
                 then [actuator_line c (path_points st ! i)
                         (calculate_heading (path_points st ! i) (path_points st ! (i + 1)))]
                 else [])
                @ map (move_line (path_points st ! i)
                         (calculate_heading (path_points st ! i) (path_points st ! (i + 1)))) pts,
                calculate_heading (path_points st ! i) (path_points st ! (i + 1)))"
    using assms by (simp add: export_segment_def Let_def)
  then show ?thesis by blast
qed

lemma export_loop_ok:
  assumes "\<not> dragging_curve st"
    and "\<forall>i \<in> set idxs. waypoint_commands st (path_points st ! i) \<noteq> None"
  shows "\<exists>segs. export_loop st idxs out h =
           (None, out @ segs,
            if idxs = [] then h
            else Some (calculate_heading (path_points st ! last idxs)
                         (path_points st ! (last idxs + 1))))"
  using assms(2)
proof (induction idxs arbitrary: out h)
  case Nil
  then show ?case by simp
next
  case (Cons i rest)
  from Cons.prems obtain c where c: "waypoint_commands st (path_points st ! i) = Some c"
    by auto
  from export_segment_ok [OF assms(1) c] obtain lines where
    seg: "export_segment st i =
            Inr (lines, calculate_heading (path_points st ! i) (path_points st ! (i + 1)))"
    by blast
  from Cons.prems have "\<forall>k \<in> set rest. waypoint_commands st (path_points st ! k) \<noteq> None"
    by simp
  from Cons.IH [OF this] obtain segs where
    "export_loop st rest (out @ lines)
         (Some (calculate_heading (path_points st ! i) (path_points st ! (i + 1)))) =
       (None, (out @ lines) @ segs,
        if rest = [] then Some (calculate_heading (path_points st ! i) (path_points st ! (i + 1)))
        else Some (calculate_heading (path_points st ! last rest)
                     (path_points st ! (last rest + 1))))"
    by blast
  then have "export_loop st (i # rest) out h =
       (None, out @ (lines @ segs),
        if i # rest = [] then h
        else Some (calculate_heading (path_points st ! last (i # rest))
                     (path_points st ! (last (i # rest) + 1))))"
    by (simp add: seg)
  then show ?case by blast
qed

subsection \<open>The command of the last waypoint\<close>

lemma py_getitem_last: "xs \<noteq> [] \<Longrightarrow> py_getitem xs (- 1) = Some (last xs)"
  by (simp add: py_getitem_def Let_def last_conv_nth nat_diff_distrib')

lemma export_to_files_ok:
  "export_body st = (None, out) \<Longrightarrow>
     export_to_files st =
       (Done, \<lparr> c_file = Some (Header # map Entry out @ [Footer]), txt_file = Some out \<rparr>)"
  by (simp add: export_to_files_def)

lemma export_to_files_raised:
  "export_body st = (Some e, out) \<Longrightarrow>
     export_to_files st =
       (Raised e, \<lparr> c_file = Some (Header # map Entry out), txt_file = None \<rparr>)"
  by (simp add: export_to_files_def)

text \<open>
  Claim C7. For a path of at least two waypoints, exported while no curve gesture is open
  and with every waypoint present in the command table, whose last waypoint carries a
  command other than None: the export succeeds, and both files hold the output of the
  segment loop followed by exactly one more instruction, the command of the last waypoint
  at its position, with speed 0 and the heading of the last segment.
\<close>

theorem trailing_actuator:
  assumes "2 \<le> length (path_points st)"
    and "\<not> dragging_curve st"
    and "set (path_points st) \<subseteq> dom (waypoint_commands st)"
    and "waypoint_commands st (last (path_points st)) = Some c"
    and "c \<noteq> CmdNone"
  shows "\<exists>segs.
           export_loop st [0..<length (path_points st) - 1] [] None =
             (None, segs,
              Some (calculate_heading (path_points st ! (length (path_points st) - 2))
                      (path_points st ! (length (path_points st) - 1))))
         \<and> export_to_files st =
             (Done,
              \<lparr> c_file = Some (Header # map Entry
                   (segs @ [Instr (CMD c) (fst (last (path_points st)))
                              (snd (last (path_points st)))
                              (calculate_heading (path_points st ! (length (path_points st) - 2))
                                 (path_points st ! (length (path_points st) - 1))) 0])
                   @ [Footer]),
                txt_file = Some
                   (segs @ [Instr (CMD c) (fst (last (path_points st)))
                              (snd (last (path_points st)))
                              (calculate_heading (path_points st ! (length (path_points st) - 2))
                                 (path_points st ! (length (path_points st) - 1))) 0]) \<rparr>)"
proof -
  define n where "n = length (path_points st)"
  define H where "H = calculate_heading (path_points st ! (n - 2)) (path_points st ! (n - 1))"
  have n2: "2 \<le> n" using assms(1) by (simp add: n_def)
  have ne: "[0..<n - 1] \<noteq> []" using n2 by simp
  have lst: "last [0..<n - 1] = n - 2"
  proof -
    have "[0..<n - 1] = [0..<n - 2] @ [n - 2]"
      using n2 by (metis Suc_1 Suc_diff_Suc Suc_le_lessD diff_Suc_1 upt_Suc_append zero_le)
    then show ?thesis by simp
  qed
  have dom: "\<forall>i \<in> set [0..<n - 1]. waypoint_commands st (path_points st ! i) \<noteq> None"
  proof
    fix i assume "i \<in> set [0..<n - 1]"
    then have "i < length (path_points st)" by (simp add: n_def)
    then have "path_points st ! i \<in> set (path_points st)" by (rule nth_mem)
    with assms(3) show "waypoint_commands st (path_points st ! i) \<noteq> None" by auto
  qed
  from export_loop_ok [OF assms(2) dom, of "[]" None] ne lst
  obtain segs where
    "export_loop st [0..<n - 1] [] None =
       (None, segs, Some (calculate_heading (path_points st ! (n - 2))
                            (path_points st ! (n - 2 + 1))))"
    by auto
  moreover have "n - 2 + 1 = n - 1" using n2 by simp
  ultimately have loop: "export_loop st [0..<n - 1] [] None = (None, segs, Some H)"
    by (simp add: H_def)
  have "path_points st \<noteq> []" using assms(1) by auto
  then have fin: "py_getitem (path_points st) (- 1) = Some (last (path_points st))"
    by (rule py_getitem_last)
  have body: "export_body st =
      (None, segs @ [actuator_line c (last (path_points st)) H])"
    unfolding export_body_def n_def [symmetric] loop
    by (simp add: fin assms(4,5))
  from export_to_files_ok [OF body] loop show ?thesis
    unfolding n_def H_def actuator_line_def by blast
qed

lemma scenario_A_last_selected:
  "snd (cycle_waypoint (snd (cycle_waypoint scenario_A 1)) 1) =
     scenario_A\<lparr> selected_waypoint_index := 1 \<rparr>"
  by (simp add: cycle_waypoint_def scenario_A_eq init_canvas_def Let_def py_getitem_def)

lemma place_at_end_eq:
  "place_at_end = scenario_A\<lparr> selected_waypoint_index := 1,
      waypoint_commands := [(0, 0) \<mapsto> CmdNone, (100, 0) \<mapsto> Place] \<rparr>"
  unfolding place_at_end_def scenario_A_last_selected
  by (simp add: assign_command_def scenario_A_eq py_getitem_def Let_def)

theorem trailing_actuator_witness:
  "2 \<le> length (path_points place_at_end)
   \<and> \<not> dragging_curve place_at_end
   \<and> set (path_points place_at_end) \<subseteq> dom (waypoint_commands place_at_end)
   \<and> waypoint_commands place_at_end (last (path_points place_at_end)) = Some Place
   \<and> Place \<noteq> CmdNone
   \<and> fst (export_to_files place_at_end) = Done
   \<and> (\<exists>segs. txt_file (snd (export_to_files place_at_end))
         = Some (segs @ [Instr (CMD Place) 100 0 0 0]))"
proof -
  have h1: "2 \<le> length (path_points place_at_end)"
    by (simp add: place_at_end_eq scenario_A_eq)
  have h2: "\<not> dragging_curve place_at_end"
    by (simp add: place_at_end_eq scenario_A_eq init_canvas_def)
  have h3: "set (path_points place_at_end) \<subseteq> dom (waypoint_commands place_at_end)"
    by (simp add: place_at_end_eq scenario_A_eq)
  have h4: "waypoint_commands place_at_end (last (path_points place_at_end)) = Some Place"
    by (simp add: place_at_end_eq scenario_A_eq)
  have h5: "Place \<noteq> CmdNone" by simp
  have p: "path_points place_at_end = [(0, 0), (100, 0)]"
    by (simp add: place_at_end_eq scenario_A_eq)
  from trailing_actuator [OF h1 h2 h3 h4 h5]
  obtain segs where "export_to_files place_at_end =
             (Done,
              \<lparr> c_file = Some (Header # map Entry
                   (segs @ [Instr (CMD Place) (fst (last (path_points place_at_end)))
                              (snd (last (path_points place_at_end)))
                              (calculate_heading
                                 (path_points place_at_end ! (length (path_points place_at_end) - 2))
                                 (path_points place_at_end ! (length (path_points place_at_end) - 1))) 0])
                   @ [Footer]),
                txt_file = Some
                   (segs @ [Instr (CMD Place) (fst (last (path_points place_at_end)))
                              (snd (last (path_points place_at_end)))
                              (calculate_heading
                                 (path_points place_at_end ! (length (path_points place_at_end) - 2))
                                 (path_points place_at_end ! (length (path_points place_at_end) - 1))) 0]) \<rparr>)"
    by blast
  then have "fst (export_to_files place_at_end) = Done
     \<and> txt_file (snd (export_to_files place_at_end))
         = Some (segs @ [Instr (CMD Place) 100 0 0 0])"
    by (simp add: p heading_scenario_A)
  with h1 h2 h3 h4 h5 show ?thesis by blast
qed

subsection \<open>Paths with a single waypoint\<close>

lemma one_start_eq:
  "one_start = (init_canvas SideNone)\<lparr> path_points := [(50, 50)],
      waypoint_commands := [(50, 50) \<mapsto> CmdNone] \<rparr>"
  by (simp add: one_start_def add_straight_line_def is_valid_point_def
      init_canvas_def add_starting_point_def)

text \<open>
  Claim C1, as the code has it. A path that consists of the start waypoint alone, with
  command None, is exported without any error: the C file is written with its declarations
  and an empty array, and the transcript is written empty.
\<close>

theorem single_waypoint_export:
  assumes "path_points st = [p]" and "waypoint_commands st p = Some CmdNone"
  shows "export_to_files st =
           (Done, \<lparr> c_file = Some [Header, Footer], txt_file = Some [] \<rparr>)"
proof -
  have fin: "py_getitem [p] (- 1) = Some p"
    by (simp add: py_getitem_def)
  have "export_body st = (None, [])"
    by (simp add: export_body_def assms fin)
  from export_to_files_ok [OF this] show ?thesis by simp
qed

theorem single_waypoint_export_witness:
  "path_points one_selected = [(50, 50)]
   \<and> waypoint_commands one_selected (50, 50) = Some CmdNone
   \<and> export_to_files one_selected =
       (Done, \<lparr> c_file = Some [Header, Footer], txt_file = Some [] \<rparr>)"
proof -
  have h1: "path_points one_selected = [(50, 50)]" by (simp add: one_selected_eq)
  have h2: "waypoint_commands one_selected (50, 50) = Some CmdNone"
    by (simp add: one_selected_eq)
  from single_waypoint_export [OF h1 h2] h1 h2 show ?thesis by blast
qed

text \<open>
  The claim as the specification states it fails: the export of the one-waypoint path
  \<open>one_start\<close> ends normally and leaves both files written.
\<close>

theorem insufficient_points_counterexample:
  "length (path_points one_start) = 1
   \<and> fst (export_to_files one_start) = Done
   \<and> c_file (snd (export_to_files one_start)) = Some [Header, Footer]
   \<and> txt_file (snd (export_to_files one_start)) = Some []"
proof -
  have p: "path_points one_start = [(50, 50)]"
    by (simp add: one_start_eq)
  have c: "waypoint_commands one_start (50, 50) = Some CmdNone"
    by (simp add: one_start_eq)
  have fin: "py_getitem [(50 :: real, 50 :: real)] (- 1) = Some (50, 50)"
    by (simp add: py_getitem_def)
  have "export_body one_start = (None, [])"
    by (simp add: export_body_def p c fin)
  from export_to_files_ok [OF this] p show ?thesis by simp
qed

text \<open>
  The remaining short paths end in an exception after the C file was opened: the empty
  path at the read of the last waypoint, a single waypoint with a command at the use of
  the variable \<^verbatim>\<open>heading\<close>, which only the loop assigns.
\<close>

lemma empty_path_export:
  assumes "path_points st = []"
  shows "export_to_files st = (Raised IndexError, \<lparr> c_file = Some [Header], txt_file = None \<rparr>)"
proof -
  have "export_body st = (Some IndexError, [])"
    by (simp add: export_body_def assms py_getitem_def)
  from export_to_files_raised [OF this] show ?thesis by simp
qed

lemma single_commanded_waypoint_export:
  assumes "path_points st = [p]" and "waypoint_commands st p = Some c" and "c \<noteq> CmdNone"
  shows "export_to_files st = (Raised NameError, \<lparr> c_file = Some [Header], txt_file = None \<rparr>)"
proof -
  have fin: "py_getitem [p] (- 1) = Some p"
    by (simp add: py_getitem_def)
  have "export_body st = (Some NameError, [])"
    by (simp add: export_body_def assms fin)
  from export_to_files_raised [OF this] show ?thesis by simp
qed

subsection \<open>Effect of assigning and removing a command\<close>

lemma revisit_eq:
  "revisit = (init_canvas SideNone)\<lparr> path_points := [(10, 10), (60, 10), (10, 10)],
      waypoint_commands := [(60, 10) \<mapsto> CmdNone, (10, 10) \<mapsto> CmdNone],
      selected_waypoint_index := 0 \<rparr>"
  by (simp add: revisit_def cycle_waypoint_def add_straight_line_def is_valid_point_def
      init_canvas_def add_starting_point_def Let_def)

lemma assign_command_stores:
  assumes "selected_waypoint_index st = int i" and "i < length (path_points st)"
    and "assign_command st c = (Done, st')"
  shows "path_points st' = path_points st
       \<and> dragging_curve st' = dragging_curve st
       \<and> waypoint_commands st' = (waypoint_commands st)(path_points st ! i \<mapsto> c)"
proof -
  have g: "py_getitem (path_points st) (selected_waypoint_index st) = Some (path_points st ! i)"
    using assms(1,2) by (simp add: py_getitem_nat)
  have s: "selected_waypoint_index st \<noteq> - 1" using assms(1) by simp
  from assms(3) show ?thesis
    unfolding assign_command_def
    by (auto simp add: g s Let_def split: if_splits)
qed

lemma remove_command_stores:
  assumes "selected_waypoint_index st = int i" and "i < length (path_points st)"
  shows "remove_command st =
           (Done, st\<lparr> waypoint_commands :=
                        (waypoint_commands st)(path_points st ! i \<mapsto> CmdNone) \<rparr>)"
proof -
  have g: "py_getitem (path_points st) (selected_waypoint_index st) = Some (path_points st ! i)"
    using assms(1,2) by (simp add: py_getitem_nat)
  have s: "selected_waypoint_index st \<noteq> - 1" using assms(1) by simp
  show ?thesis by (simp add: remove_command_def g s)
qed

subsection \<open>The output of an export of a finished path\<close>

lemma export_loop_exact:
  assumes "\<not> dragging_curve st"
    and "\<forall>k \<in> set idxs. waypoint_commands st (path_points st ! k) \<noteq> None"
  shows "\<exists>segs. length segs = length idxs
           \<and> (\<forall>m < length idxs.
                 export_segment st (idxs ! m) =
                   Inr (segs ! m, calculate_heading (path_points st ! (idxs ! m))
                                    (path_points st ! (idxs ! m + 1))))
           \<and> export_loop st idxs out h =
               (None, out @ concat segs,
                if idxs = [] then h
                else Some (calculate_heading (path_points st ! last idxs)
                             (path_points st ! (last idxs + 1))))"
  using assms(2)
proof (induction idxs arbitrary: out h)
  case Nil
  then show ?case by simp
next
  case (Cons i rest)
  define Hd where "Hd = (\<lambda>k. calculate_heading (path_points st ! k) (path_points st ! (k + 1)))"
  from Cons.prems obtain c where c: "waypoint_commands st (path_points st ! i) = Some c"
    by auto
  from export_segment_ok [OF assms(1) c] obtain lines where
    seg: "export_segment st i = Inr (lines, Hd i)"
    unfolding Hd_def by blast
  from Cons.prems have "\<forall>k \<in> set rest. waypoint_commands st (path_points st ! k) \<noteq> None"
    by simp
  from Cons.IH [OF this, of "out @ lines" "Some (Hd i)"] obtain segs where
    len: "length segs = length rest"
    and each: "\<forall>m < length rest. export_segment st (rest ! m) = Inr (segs ! m, Hd (rest ! m))"
    and loop: "export_loop st rest (out @ lines) (Some (Hd i)) =
       (None, (out @ lines) @ concat segs,
        if rest = [] then Some (Hd i) else Some (Hd (last rest)))"
    unfolding Hd_def by blast
  have l: "length (lines # segs) = length (i # rest)" using len by simp
  have e: "\<forall>m < length (i # rest).
      export_segment st ((i # rest) ! m) = Inr ((lines # segs) ! m, Hd ((i # rest) ! m))"
  proof (intro allI impI)
    fix m assume m: "m < length (i # rest)"
    show "export_segment st ((i # rest) ! m) = Inr ((lines # segs) ! m, Hd ((i # rest) ! m))"
    proof (cases m)
      case 0
      then show ?thesis by (simp add: seg)
    next
      case (Suc m')
      with m have "m' < length rest" by simp
      with each Suc show ?thesis by simp
    qed
  qed
  have r: "export_loop st (i # rest) out h =
       (None, out @ concat (lines # segs),
        if i # rest = [] then h else Some (Hd (last (i # rest))))"
    using loop by (simp add: seg)
  from l e r show ?case unfolding Hd_def by blast
qed

lemma export_finished:
  assumes "\<not> dragging_curve st"
    and "set (path_points st) \<subseteq> dom (waypoint_commands st)"
    and "2 \<le> length (path_points st)"
    and "waypoint_commands st (last (path_points st)) = Some cl"
  shows "\<exists>segs. length segs = length (path_points st) - 1
           \<and> (\<forall>k. k + 1 < length (path_points st) \<longrightarrow>
                 export_segment st k =
                   Inr (segs ! k, calculate_heading (path_points st ! k)
                                    (path_points st ! (k + 1))))
           \<and> export_to_files st =
               (Done,
                \<lparr> c_file = Some (Header # map Entry
                     (concat segs @
                      (if cl \<noteq> CmdNone
                       then [actuator_line cl (last (path_points st))
                               (calculate_heading
                                  (path_points st ! (length (path_points st) - 2))
                                  (path_points st ! (length (path_points st) - 1)))]
                       else [])) @ [Footer]),
                  txt_file = Some
                     (concat segs @
                      (if cl \<noteq> CmdNone
                       then [actuator_line cl (last (path_points st))
                               (calculate_heading
                                  (path_points st ! (length (path_points st) - 2))
                                  (path_points st ! (length (path_points st) - 1)))]
                       else [])) \<rparr>)"
proof -
  define n where "n = length (path_points st)"
  define H where "H = calculate_heading (path_points st ! (n - 2)) (path_points st ! (n - 1))"
  have n2: "2 \<le> n" using assms(3) by (simp add: n_def)
  have ne: "[0..<n - 1] \<noteq> []" using n2 by simp
  have lst: "last [0..<n - 1] = n - 2"
  proof -
    have "[0..<n - 1] = [0..<n - 2] @ [n - 2]"
      using n2 by (metis Suc_1 Suc_diff_Suc Suc_le_lessD diff_Suc_1 upt_Suc_append zero_le)
    then show ?thesis by simp
  qed
  have dom: "\<forall>i \<in> set [0..<n - 1]. waypoint_commands st (path_points st ! i) \<noteq> None"
  proof
    fix i assume "i \<in> set [0..<n - 1]"
    then have "i < length (path_points st)" by (simp add: n_def)
    then have "path_points st ! i \<in> set (path_points st)" by (rule nth_mem)
    with assms(2) show "waypoint_commands st (path_points st ! i) \<noteq> None" by auto
  qed
  from export_loop_exact [OF assms(1) dom, of "[]" None]
  obtain segs where len: "length segs = length [0..<n - 1]"
    and each: "\<forall>m < length [0..<n - 1].
                 export_segment st ([0..<n - 1] ! m) =
                   Inr (segs ! m, calculate_heading (path_points st ! ([0..<n - 1] ! m))
                                    (path_points st ! ([0..<n - 1] ! m + 1)))"
    and loop0: "export_loop st [0..<n - 1] [] None =
               (None, [] @ concat segs,
                if [0..<n - 1] = [] then None
                else Some (calculate_heading (path_points st ! last [0..<n - 1])
                             (path_points st ! (last [0..<n - 1] + 1))))"
    by blast
  have len': "length segs = n - 1" using len by simp
  have each': "\<forall>k. k + 1 < n \<longrightarrow>
                 export_segment st k =
                   Inr (segs ! k, calculate_heading (path_points st ! k)
                                    (path_points st ! (k + 1)))"
  proof (intro allI impI)
    fix k assume "k + 1 < n"
    then have k: "k < length [0..<n - 1]" by simp
    then have "[0..<n - 1] ! k = k" by simp
    with each k show "export_segment st k =
                   Inr (segs ! k, calculate_heading (path_points st ! k)
                                    (path_points st ! (k + 1)))"
      by (metis)
  qed
  have "n - 2 + 1 = n - 1" using n2 by simp
  with loop0 ne lst have loop: "export_loop st [0..<n - 1] [] None = (None, concat segs, Some H)"
    by (simp add: H_def)
  have "path_points st \<noteq> []" using assms(3) by auto
  then have fin: "py_getitem (path_points st) (- 1) = Some (last (path_points st))"
    by (rule py_getitem_last)
  have body: "export_body st =
      (None, concat segs @
               (if cl \<noteq> CmdNone then [actuator_line cl (last (path_points st)) H] else []))"
    unfolding export_body_def n_def [symmetric] loop
    by (simp add: fin assms(4))
  from export_to_files_ok [OF body] len' each' show ?thesis
    unfolding n_def H_def by blast
qed

lemma export_segment_eq:
  assumes "\<not> dragging_curve st" and "waypoint_commands st (path_points st ! i) = Some c"
    and "generate_intermediate_points (path_points st ! i) (path_points st ! (i + 1)) None 3
           = Inr pts"
  shows "export_segment st i =
           Inr ((if c \<noteq> CmdNone
                 then [actuator_line c (path_points st ! i)
                         (calculate_heading (path_points st ! i) (path_points st ! (i + 1)))]
                 else [])
                @ map (move_line (path_points st ! i)
                         (calculate_heading (path_points st ! i) (path_points st ! (i + 1)))) pts,
                calculate_heading (path_points st ! i) (path_points st ! (i + 1)))"
  using assms by (simp add: export_segment_def Let_def)

lemma move_line_eq:
  "move_line p1 h q =
     Instr CMD_MOVE_WITH_HEADING (fst q) (snd q) h
       (min 100 (40 + (calculate_distance p1 q / 100) * 60))"
  by (simp add: move_line_def calculate_dynamic_speed_def Let_def min.commute)

subsection \<open>Speed of the motion instructions\<close>

text \<open>
  Claim C6. The speed function is \<open>min 100 (40 + (s / 100) * 60)\<close>. In the export of a
  finished path (no curve gesture open, every waypoint present in the command table),
  every sub-point \<open>pt\<close> that the densifier returns for a segment is written, to both
  files, as a move instruction at \<open>pt\<close> with the heading of the segment and the speed
  \<open>min 100 (40 + (s / 100) * 60)\<close>, where \<open>s\<close> is the distance of \<open>pt\<close> from the start
  waypoint of its segment; and the export contains no other move instructions.
\<close>

theorem speed_ramp:
  assumes "\<not> dragging_curve st"
    and "set (path_points st) \<subseteq> dom (waypoint_commands st)"
    and "i + 1 < length (path_points st)"
    and "generate_intermediate_points (path_points st ! i) (path_points st ! (i + 1)) None 3
           = Inr pts"
    and "pt \<in> set pts"
  shows "calculate_dynamic_speed s = min 100 (40 + (s / 100) * 60)
       \<and> (\<exists>out.
             export_to_files st =
               (Done, \<lparr> c_file = Some (Header # map Entry out @ [Footer]),
                        txt_file = Some out \<rparr>)
           \<and> Instr CMD_MOVE_WITH_HEADING (fst pt) (snd pt)
                (calculate_heading (path_points st ! i) (path_points st ! (i + 1)))
                (min 100 (40 + (calculate_distance (path_points st ! i) pt / 100) * 60))
               \<in> set out
           \<and> (\<forall>m \<in> set out. kind m = CMD_MOVE_WITH_HEADING \<longrightarrow>
                 (\<exists>k ps q. k + 1 < length (path_points st)
                    \<and> generate_intermediate_points (path_points st ! k)
                          (path_points st ! (k + 1)) None 3 = Inr ps
                    \<and> q \<in> set ps
                    \<and> m = Instr CMD_MOVE_WITH_HEADING (fst q) (snd q)
                            (calculate_heading (path_points st ! k) (path_points st ! (k + 1)))
                            (min 100
                               (40 + (calculate_distance (path_points st ! k) q / 100) * 60)))))"
proof -
  define n where "n = length (path_points st)"
  define Hd where "Hd = (\<lambda>k. calculate_heading (path_points st ! k) (path_points st ! (k + 1)))"
  have a: "calculate_dynamic_speed s = min 100 (40 + (s / 100) * 60)"
    by (simp add: calculate_dynamic_speed_def Let_def min.commute)
  have n2: "2 \<le> length (path_points st)" using assms(3) by simp
  then have "path_points st \<noteq> []" by auto
  then have "last (path_points st) \<in> set (path_points st)" by simp
  with assms(2) obtain cl where cl: "waypoint_commands st (last (path_points st)) = Some cl"
    by auto
  define trail where "trail = (if cl \<noteq> CmdNone
       then [actuator_line cl (last (path_points st))
               (calculate_heading (path_points st ! (length (path_points st) - 2))
                  (path_points st ! (length (path_points st) - 1)))]
       else [])"
  from export_finished [OF assms(1,2) n2 cl]
  obtain segs where len: "length segs = n - 1"
    and each: "\<forall>k. k + 1 < n \<longrightarrow> export_segment st k = Inr (segs ! k, Hd k)"
    and ex: "export_to_files st =
               (Done, \<lparr> c_file = Some (Header # map Entry (concat segs @ trail) @ [Footer]),
                        txt_file = Some (concat segs @ trail) \<rparr>)"
    unfolding n_def Hd_def trail_def by blast
  have form: "\<exists>c. segs ! k =
        (if c \<noteq> CmdNone then [actuator_line c (path_points st ! k) (Hd k)] else [])
        @ map (move_line (path_points st ! k) (Hd k)) ps"
    if "k + 1 < n"
      and "generate_intermediate_points (path_points st ! k) (path_points st ! (k + 1)) None 3
             = Inr ps"
    for k ps
  proof -
    from that(1) have "path_points st ! k \<in> set (path_points st)" by (simp add: n_def)
    with assms(2) obtain c where c: "waypoint_commands st (path_points st ! k) = Some c"
      by auto
    from export_segment_eq [OF assms(1) c that(2)] each that(1)
    have "segs ! k =
        (if c \<noteq> CmdNone then [actuator_line c (path_points st ! k) (Hd k)] else [])
        @ map (move_line (path_points st ! k) (Hd k)) ps"
      unfolding Hd_def by simp
    then show ?thesis by blast
  qed
  have b: "Instr CMD_MOVE_WITH_HEADING (fst pt) (snd pt) (Hd i)
             (min 100 (40 + (calculate_distance (path_points st ! i) pt / 100) * 60))
           \<in> set (concat segs @ trail)"
  proof -
    have i: "i + 1 < n" using assms(3) by (simp add: n_def)
    from form [OF i assms(4)] assms(5)
    have "move_line (path_points st ! i) (Hd i) pt \<in> set (segs ! i)" by auto
    moreover have "segs ! i \<in> set segs" using i len by simp
    ultimately have "move_line (path_points st ! i) (Hd i) pt \<in> set (concat segs)" by auto
    then show ?thesis by (simp add: move_line_eq)
  qed
  have c: "\<forall>m \<in> set (concat segs @ trail). kind m = CMD_MOVE_WITH_HEADING \<longrightarrow>
                 (\<exists>k ps q. k + 1 < length (path_points st)
                    \<and> generate_intermediate_points (path_points st ! k)
                          (path_points st ! (k + 1)) None 3 = Inr ps
                    \<and> q \<in> set ps
                    \<and> m = Instr CMD_MOVE_WITH_HEADING (fst q) (snd q) (Hd k)
                            (min 100
                               (40 + (calculate_distance (path_points st ! k) q / 100) * 60)))"
  proof (intro ballI impI)
    fix m assume m: "m \<in> set (concat segs @ trail)" and k: "kind m = CMD_MOVE_WITH_HEADING"
    from k have "m \<notin> set trail" by (auto simp add: trail_def actuator_line_def)
    with m obtain sg where sg: "sg \<in> set segs" and msg: "m \<in> set sg" by auto
    from sg obtain k where kl: "k < length segs" and sk: "sg = segs ! k"
      by (auto simp add: in_set_conv_nth)
    from kl len have kn: "k + 1 < n" by simp
    obtain ps where
      ps: "generate_intermediate_points (path_points st ! k) (path_points st ! (k + 1)) None 3
             = Inr ps"
      using straight_points_default by blast
    from form [OF kn ps] msg sk k obtain q where "q \<in> set ps"
      and "m = move_line (path_points st ! k) (Hd k) q"
      by (auto simp add: actuator_line_def split: if_splits)
    with kn ps show "\<exists>k ps q. k + 1 < length (path_points st)
                    \<and> generate_intermediate_points (path_points st ! k)
                          (path_points st ! (k + 1)) None 3 = Inr ps
                    \<and> q \<in> set ps
                    \<and> m = Instr CMD_MOVE_WITH_HEADING (fst q) (snd q) (Hd k)
                            (min 100
                               (40 + (calculate_distance (path_points st ! k) q / 100) * 60))"
      unfolding n_def move_line_eq by blast
  qed
  from a ex b c show ?thesis unfolding Hd_def by blast
qed

theorem speed_ramp_witness:
  "\<not> dragging_curve scenario_A
   \<and> set (path_points scenario_A) \<subseteq> dom (waypoint_commands scenario_A)
   \<and> 0 + 1 < length (path_points scenario_A)
   \<and> (\<exists>pts. generate_intermediate_points (path_points scenario_A ! 0)
          (path_points scenario_A ! (0 + 1)) None 3 = Inr pts \<and> (100, 0) \<in> set pts)
   \<and> (\<exists>out. export_to_files scenario_A =
               (Done, \<lparr> c_file = Some (Header # map Entry out @ [Footer]),
                        txt_file = Some out \<rparr>)
         \<and> Instr CMD_MOVE_WITH_HEADING 100 0 0 100 \<in> set out)
   \<and> calculate_dynamic_speed 50 = 70"
proof -
  define f where "f = (\<lambda>i. (0 + (real_of_int i / real_of_int 33) * (100 - 0),
                       0 + (real_of_int i / real_of_int 33) * (0 - 0)) :: point)"
  have p: "path_points scenario_A = [(0, 0), (100, 0)]" by (simp add: scenario_A_eq)
  have h1: "\<not> dragging_curve scenario_A" by (simp add: scenario_A_eq init_canvas_def)
  have h2: "set (path_points scenario_A) \<subseteq> dom (waypoint_commands scenario_A)"
    by (simp add: scenario_A_eq)
  have h3: "0 + 1 < length (path_points scenario_A)" by (simp add: p)
  have g0: "generate_intermediate_points (0, 0) (100, 0) None 3 = Inr (map f [1..33])"
    using straight_points_eq [of 3 "(0, 0)" "(100, 0)"]
    by (simp only: distance_scenario_A floor_scenario_A fst_conv snd_conv f_def)
  then have h4: "generate_intermediate_points (path_points scenario_A ! 0)
          (path_points scenario_A ! (0 + 1)) None 3 = Inr (map f [1..33])"
    by (simp add: p)
  have "(33 :: int) \<in> set [1..33]" by simp
  then have "f 33 \<in> f ` set [1..33]" by (rule imageI)
  moreover have "f 33 = (100, 0)" by (simp add: f_def)
  ultimately have h5: "(100, 0) \<in> set (map f [1..33])" by (simp only: set_map)
  from speed_ramp [OF h1 h2 h3 h4 h5, of 50]
  obtain out where "calculate_dynamic_speed 50 = min 100 (40 + (50 / 100) * 60)"
    and ex: "export_to_files scenario_A =
               (Done, \<lparr> c_file = Some (Header # map Entry out @ [Footer]),
                        txt_file = Some out \<rparr>)"
    and mem: "Instr CMD_MOVE_WITH_HEADING (fst (100 :: real, 0 :: real)) (snd (100 :: real, 0 :: real))
                (calculate_heading (path_points scenario_A ! 0) (path_points scenario_A ! (0 + 1)))
                (min 100 (40 + (calculate_distance (path_points scenario_A ! 0) (100, 0) / 100) * 60))
               \<in> set out"
    by blast
  then have s: "calculate_dynamic_speed 50 = 70" by simp
  from mem have "Instr CMD_MOVE_WITH_HEADING 100 0 0 100 \<in> set out"
    by (simp add: p heading_scenario_A distance_scenario_A)
  with ex have e: "\<exists>out. export_to_files scenario_A =
               (Done, \<lparr> c_file = Some (Header # map Entry out @ [Footer]),
                        txt_file = Some out \<rparr>)
         \<and> Instr CMD_MOVE_WITH_HEADING 100 0 0 100 \<in> set out"
    by blast
  from h4 h5 have g: "\<exists>pts. generate_intermediate_points (path_points scenario_A ! 0)
          (path_points scenario_A ! (0 + 1)) None 3 = Inr pts \<and> (100, 0) \<in> set pts"
    by blast
  from h1 h2 h3 g e s show ?thesis by blast
qed

subsection \<open>Commands are stored by coordinates\<close>

lemma remove_command_is_assign_none: "remove_command st = assign_command st CmdNone"
  by (simp add: remove_command_def assign_command_def Let_def split: option.splits)

lemma export_shared_command:
  assumes "\<not> dragging_curve s"
    and "set (path_points s) \<subseteq> dom (waypoint_commands s)"
    and "2 \<le> length (path_points s)"
    and "waypoint_commands s (path_points s ! i) = Some c"
    and "waypoint_commands s (path_points s ! j) = Some c"
  shows "\<exists>segs trail.
           length segs = length (path_points s) - 1
         \<and> export_to_files s =
             (Done, \<lparr> c_file = Some (Header # map Entry (concat segs @ trail) @ [Footer]),
                      txt_file = Some (concat segs @ trail) \<rparr>)
         \<and> (\<forall>k. k + 1 < length (path_points s) \<longrightarrow>
               export_segment s k =
                 Inr (segs ! k,
                      calculate_heading (path_points s ! k) (path_points s ! (k + 1))))
         \<and> (\<forall>k. (k = i \<or> k = j) \<and> k + 1 < length (path_points s) \<longrightarrow>
               (\<exists>ps. generate_intermediate_points (path_points s ! k)
                        (path_points s ! (k + 1)) None 3 = Inr ps
                  \<and> segs ! k =
                      (if c \<noteq> CmdNone
                       then [actuator_line c (path_points s ! k)
                               (calculate_heading (path_points s ! k) (path_points s ! (k + 1)))]
                       else [])
                      @ map (move_line (path_points s ! k)
                               (calculate_heading (path_points s ! k) (path_points s ! (k + 1))))
                          ps))
         \<and> (\<forall>k. (k = i \<or> k = j) \<and> k + 1 = length (path_points s) \<longrightarrow>
               trail =
                 (if c \<noteq> CmdNone
                  then [actuator_line c (path_points s ! k)
                          (calculate_heading (path_points s ! (k - 1)) (path_points s ! k))]
                  else []))"
proof -
  define n where "n = length (path_points s)"
  define Hd where "Hd = (\<lambda>k. calculate_heading (path_points s ! k) (path_points s ! (k + 1)))"
  have ne: "path_points s \<noteq> []" using assms(3) by auto
  then have "last (path_points s) \<in> set (path_points s)" by simp
  with assms(2) obtain cl where cl: "waypoint_commands s (last (path_points s)) = Some cl"
    by auto
  define trail where "trail = (if cl \<noteq> CmdNone
       then [actuator_line cl (last (path_points s))
               (calculate_heading (path_points s ! (n - 2)) (path_points s ! (n - 1)))]
       else [])"
  from export_finished [OF assms(1,2,3) cl]
  obtain segs where len: "length segs = n - 1"
    and each: "\<forall>k. k + 1 < n \<longrightarrow> export_segment s k = Inr (segs ! k, Hd k)"
    and ex: "export_to_files s =
               (Done, \<lparr> c_file = Some (Header # map Entry (concat segs @ trail) @ [Footer]),
                        txt_file = Some (concat segs @ trail) \<rparr>)"
    unfolding n_def Hd_def trail_def by blast
  have ck: "waypoint_commands s (path_points s ! k) = Some c" if "k = i \<or> k = j" for k
    using that assms(4,5) by auto
  have seg: "\<forall>k. (k = i \<or> k = j) \<and> k + 1 < n \<longrightarrow>
               (\<exists>ps. generate_intermediate_points (path_points s ! k)
                        (path_points s ! (k + 1)) None 3 = Inr ps
                  \<and> segs ! k =
                      (if c \<noteq> CmdNone then [actuator_line c (path_points s ! k) (Hd k)] else [])
                      @ map (move_line (path_points s ! k) (Hd k)) ps)"
  proof (intro allI impI)
    fix k assume k: "(k = i \<or> k = j) \<and> k + 1 < n"
    obtain ps where
      ps: "generate_intermediate_points (path_points s ! k) (path_points s ! (k + 1)) None 3
             = Inr ps"
      using straight_points_default by blast
    from k have c: "waypoint_commands s (path_points s ! k) = Some c" using ck by blast
    from export_segment_eq [OF assms(1) c ps] each k
    have "segs ! k =
        (if c \<noteq> CmdNone then [actuator_line c (path_points s ! k) (Hd k)] else [])
        @ map (move_line (path_points s ! k) (Hd k)) ps"
      unfolding Hd_def by simp
    with ps show "\<exists>ps. generate_intermediate_points (path_points s ! k)
                        (path_points s ! (k + 1)) None 3 = Inr ps
                  \<and> segs ! k =
                      (if c \<noteq> CmdNone then [actuator_line c (path_points s ! k) (Hd k)] else [])
                      @ map (move_line (path_points s ! k) (Hd k)) ps"
      by blast
  qed
  have tr: "\<forall>k. (k = i \<or> k = j) \<and> k + 1 = n \<longrightarrow>
               trail =
                 (if c \<noteq> CmdNone
                  then [actuator_line c (path_points s ! k)
                          (calculate_heading (path_points s ! (k - 1)) (path_points s ! k))]
                  else [])"
  proof (intro allI impI)
    fix k assume k: "(k = i \<or> k = j) \<and> k + 1 = n"
    then have kn: "k = n - 1" by auto
    have l: "last (path_points s) = path_points s ! k"
      using ne kn by (simp add: last_conv_nth n_def)
    from k ck have "waypoint_commands s (path_points s ! k) = Some c" by blast
    with cl l have "cl = c" by simp
    moreover have "n - 2 = k - 1" using kn by simp
    ultimately show "trail =
                 (if c \<noteq> CmdNone
                  then [actuator_line c (path_points s ! k)
                          (calculate_heading (path_points s ! (k - 1)) (path_points s ! k))]
                  else [])"
      unfolding trail_def l using kn by simp
  qed
  from len ex each seg tr show ?thesis
    unfolding n_def Hd_def by blast
qed

text \<open>
  Claim C10. Let the waypoints at path positions \<open>i\<close> and \<open>j\<close> have equal coordinates and
  let position \<open>i\<close> be selected. An assignment that succeeds stores the command under
  these coordinates, so it is the command of both positions. The export of the path, when
  it is finished (no curve gesture open, every waypoint in the command table, at least two
  waypoints), then succeeds and writes the assigned command at both positions: the lines
  of the segment that starts at position \<open>i\<close>, and of the one that starts at \<open>j\<close>, begin
  with the instruction of that command at that waypoint, and when the position is the last
  of the path the export ends with that instruction; for the command None no command
  instruction is written there. Removing the command is the assignment of None: it
  succeeds and sets the command of both positions to None.
\<close>

theorem commands_keyed_by_coordinates:
  assumes "i < length (path_points st)" and "j < length (path_points st)"
    and "path_points st ! i = path_points st ! j"
    and "selected_waypoint_index st = int i"
  shows "(\<forall>c st'. assign_command st c = (Done, st') \<longrightarrow>
            path_points st' = path_points st
          \<and> waypoint_commands st' (path_points st' ! i) = Some c
          \<and> waypoint_commands st' (path_points st' ! j) = Some c
          \<and> (\<not> dragging_curve st \<and> set (path_points st) \<subseteq> dom (waypoint_commands st)
               \<and> 2 \<le> length (path_points st) \<longrightarrow>
              (\<exists>segs trail.
                 length segs = length (path_points st) - 1
               \<and> export_to_files st' =
                   (Done, \<lparr> c_file = Some (Header # map Entry (concat segs @ trail) @ [Footer]),
                            txt_file = Some (concat segs @ trail) \<rparr>)
               \<and> (\<forall>k. k + 1 < length (path_points st) \<longrightarrow>
                     export_segment st' k =
                       Inr (segs ! k,
                            calculate_heading (path_points st ! k) (path_points st ! (k + 1))))
               \<and> (\<forall>k. (k = i \<or> k = j) \<and> k + 1 < length (path_points st) \<longrightarrow>
                     (\<exists>ps. generate_intermediate_points (path_points st ! k)
                              (path_points st ! (k + 1)) None 3 = Inr ps
                        \<and> segs ! k =
                            (if c \<noteq> CmdNone
                             then [actuator_line c (path_points st ! k)
                                     (calculate_heading (path_points st ! k)
                                        (path_points st ! (k + 1)))]
                             else [])
                            @ map (move_line (path_points st ! k)
                                     (calculate_heading (path_points st ! k)
                                        (path_points st ! (k + 1)))) ps))
               \<and> (\<forall>k. (k = i \<or> k = j) \<and> k + 1 = length (path_points st) \<longrightarrow>
                     trail =
                       (if c \<noteq> CmdNone
                        then [actuator_line c (path_points st ! k)
                                (calculate_heading (path_points st ! (k - 1))
                                   (path_points st ! k))]
                        else [])))))
       \<and> (\<exists>st''. remove_command st = (Done, st'')
             \<and> assign_command st CmdNone = (Done, st'')
             \<and> path_points st'' = path_points st
             \<and> waypoint_commands st'' (path_points st'' ! i) = Some CmdNone
             \<and> waypoint_commands st'' (path_points st'' ! j) = Some CmdNone)"
proof -
  have A: "path_points st' = path_points st
          \<and> waypoint_commands st' (path_points st' ! i) = Some c
          \<and> waypoint_commands st' (path_points st' ! j) = Some c
          \<and> (\<not> dragging_curve st \<and> set (path_points st) \<subseteq> dom (waypoint_commands st)
               \<and> 2 \<le> length (path_points st) \<longrightarrow>
              (\<exists>segs trail.
                 length segs = length (path_points st) - 1
               \<and> export_to_files st' =
                   (Done, \<lparr> c_file = Some (Header # map Entry (concat segs @ trail) @ [Footer]),
                            txt_file = Some (concat segs @ trail) \<rparr>)
               \<and> (\<forall>k. k + 1 < length (path_points st) \<longrightarrow>
                     export_segment st' k =
                       Inr (segs ! k,
                            calculate_heading (path_points st ! k) (path_points st ! (k + 1))))
               \<and> (\<forall>k. (k = i \<or> k = j) \<and> k + 1 < length (path_points st) \<longrightarrow>
                     (\<exists>ps. generate_intermediate_points (path_points st ! k)
                              (path_points st ! (k + 1)) None 3 = Inr ps
                        \<and> segs ! k =
                            (if c \<noteq> CmdNone
                             then [actuator_line c (path_points st ! k)
                                     (calculate_heading (path_points st ! k)
                                        (path_points st ! (k + 1)))]
                             else [])
                            @ map (move_line (path_points st ! k)
                                     (calculate_heading (path_points st ! k)
                                        (path_points st ! (k + 1)))) ps))
               \<and> (\<forall>k. (k = i \<or> k = j) \<and> k + 1 = length (path_points st) \<longrightarrow>
                     trail =
                       (if c \<noteq> CmdNone
                        then [actuator_line c (path_points st ! k)
                                (calculate_heading (path_points st ! (k - 1))
                                   (path_points st ! k))]
                        else []))))"
    if a: "assign_command st c = (Done, st')" for c st'
  proof -
    from assign_command_stores [OF assms(4) assms(1) a]
    have p: "path_points st' = path_points st"
      and d: "dragging_curve st' = dragging_curve st"
      and w: "waypoint_commands st' = (waypoint_commands st)(path_points st ! i \<mapsto> c)"
      by simp_all
    have ci: "waypoint_commands st' (path_points st' ! i) = Some c" by (simp add: p w)
    have cj: "waypoint_commands st' (path_points st' ! j) = Some c"
      using assms(3) by (simp add: p w)
    have E: "\<exists>segs trail.
                 length segs = length (path_points st) - 1
               \<and> export_to_files st' =
                   (Done, \<lparr> c_file = Some (Header # map Entry (concat segs @ trail) @ [Footer]),
                            txt_file = Some (concat segs @ trail) \<rparr>)
               \<and> (\<forall>k. k + 1 < length (path_points st) \<longrightarrow>
                     export_segment st' k =
                       Inr (segs ! k,
                            calculate_heading (path_points st ! k) (path_points st ! (k + 1))))
               \<and> (\<forall>k. (k = i \<or> k = j) \<and> k + 1 < length (path_points st) \<longrightarrow>
                     (\<exists>ps. generate_intermediate_points (path_points st ! k)
                              (path_points st ! (k + 1)) None 3 = Inr ps
                        \<and> segs ! k =
                            (if c \<noteq> CmdNone
                             then [actuator_line c (path_points st ! k)
                                     (calculate_heading (path_points st ! k)
                                        (path_points st ! (k + 1)))]
                             else [])
                            @ map (move_line (path_points st ! k)
                                     (calculate_heading (path_points st ! k)
                                        (path_points st ! (k + 1)))) ps))
               \<and> (\<forall>k. (k = i \<or> k = j) \<and> k + 1 = length (path_points st) \<longrightarrow>
                     trail =
                       (if c \<noteq> CmdNone
                        then [actuator_line c (path_points st ! k)
                                (calculate_heading (path_points st ! (k - 1))
                                   (path_points st ! k))]
                        else []))"
      if f: "\<not> dragging_curve st \<and> set (path_points st) \<subseteq> dom (waypoint_commands st)
               \<and> 2 \<le> length (path_points st)"
    proof -
      have f1: "\<not> dragging_curve st'" using f d by simp
      have f2: "set (path_points st') \<subseteq> dom (waypoint_commands st')"
        using f by (auto simp add: p w)
      have f3: "2 \<le> length (path_points st')" using f p by simp
      from export_shared_command [OF f1 f2 f3 ci cj] show ?thesis
        unfolding p .
    qed
    from p ci cj E show ?thesis by blast
  qed
  have g: "py_getitem (path_points st) (selected_waypoint_index st) = Some (path_points st ! i)"
    using assms(1,4) by (simp add: py_getitem_nat)
  have R: "\<exists>st''. remove_command st = (Done, st'')
             \<and> assign_command st CmdNone = (Done, st'')
             \<and> path_points st'' = path_points st
             \<and> waypoint_commands st'' (path_points st'' ! i) = Some CmdNone
             \<and> waypoint_commands st'' (path_points st'' ! j) = Some CmdNone"
    using remove_command_stores [OF assms(4) assms(1)] assms(3)
      remove_command_is_assign_none [of st]
    by simp
  from A R show ?thesis by blast
qed

lemma heading_revisit_out: "calculate_heading (10, 10) (60, 10) = 0"
  by (simp add: calculate_heading_def atan2_def degrees_def)

lemma heading_revisit_back: "calculate_heading (60, 10) (10, 10) = 180"
  by (simp add: calculate_heading_def atan2_def degrees_def)

theorem commands_keyed_by_coordinates_witness:
  "0 < length (path_points revisit) \<and> 2 < length (path_points revisit)
   \<and> path_points revisit ! 0 = path_points revisit ! 2
   \<and> selected_waypoint_index revisit = int 0
   \<and> \<not> dragging_curve revisit
   \<and> set (path_points revisit) \<subseteq> dom (waypoint_commands revisit)
   \<and> 2 \<le> length (path_points revisit)
   \<and> fst (assign_command revisit Clasp) = Done
   \<and> waypoint_commands (snd (assign_command revisit Clasp)) (path_points revisit ! 2)
       = Some Clasp
   \<and> (\<exists>out. export_to_files (snd (assign_command revisit Clasp)) =
               (Done, \<lparr> c_file = Some (Header # map Entry out @ [Footer]),
                        txt_file = Some out \<rparr>)
         \<and> hd out = Instr (CMD Clasp) 10 10 0 0
         \<and> last out = Instr (CMD Clasp) 10 10 180 0)"
proof -
  define st' where "st' = snd (assign_command revisit Clasp)"
  have p: "path_points revisit = [(10, 10), (60, 10), (10, 10)]" by (simp add: revisit_eq)
  have h1: "0 < length (path_points revisit)" by (simp add: p)
  have h2: "2 < length (path_points revisit)" by (simp add: p)
  have h3: "path_points revisit ! 0 = path_points revisit ! 2" by (simp add: p)
  have h4: "selected_waypoint_index revisit = int 0" by (simp add: revisit_eq)
  have f1: "\<not> dragging_curve revisit" by (simp add: revisit_eq init_canvas_def)
  have f2: "set (path_points revisit) \<subseteq> dom (waypoint_commands revisit)"
    by (simp add: revisit_eq)
  have f3: "2 \<le> length (path_points revisit)" by (simp add: p)
  have d: "fst (assign_command revisit Clasp) = Done"
    by (simp add: assign_command_def revisit_eq py_getitem_def Let_def)
  then have a: "assign_command revisit Clasp = (Done, st')"
    unfolding st'_def by (metis prod.collapse)
  from commands_keyed_by_coordinates [OF h1 h2 h3 h4] a
  have cj: "waypoint_commands st' (path_points st' ! 2) = Some Clasp"
    and pp: "path_points st' = path_points revisit"
    and E: "\<not> dragging_curve revisit
               \<and> set (path_points revisit) \<subseteq> dom (waypoint_commands revisit)
               \<and> 2 \<le> length (path_points revisit) \<longrightarrow>
              (\<exists>segs trail.
                 length segs = length (path_points revisit) - 1
               \<and> export_to_files st' =
                   (Done, \<lparr> c_file = Some (Header # map Entry (concat segs @ trail) @ [Footer]),
                            txt_file = Some (concat segs @ trail) \<rparr>)
               \<and> (\<forall>k. k + 1 < length (path_points revisit) \<longrightarrow>
                     export_segment st' k =
                       Inr (segs ! k,
                            calculate_heading (path_points revisit ! k)
                              (path_points revisit ! (k + 1))))
               \<and> (\<forall>k. (k = 0 \<or> k = 2) \<and> k + 1 < length (path_points revisit) \<longrightarrow>
                     (\<exists>ps. generate_intermediate_points (path_points revisit ! k)
                              (path_points revisit ! (k + 1)) None 3 = Inr ps
                        \<and> segs ! k =
                            (if Clasp \<noteq> CmdNone
                             then [actuator_line Clasp (path_points revisit ! k)
                                     (calculate_heading (path_points revisit ! k)
                                        (path_points revisit ! (k + 1)))]
                             else [])
                            @ map (move_line (path_points revisit ! k)
                                     (calculate_heading (path_points revisit ! k)
                                        (path_points revisit ! (k + 1)))) ps))
               \<and> (\<forall>k. (k = 0 \<or> k = 2) \<and> k + 1 = length (path_points revisit) \<longrightarrow>
                     trail =
                       (if Clasp \<noteq> CmdNone
                        then [actuator_line Clasp (path_points revisit ! k)
                                (calculate_heading (path_points revisit ! (k - 1))
                                   (path_points revisit ! k))]
                        else [])))"
    by blast+
  from E f1 f2 f3 obtain segs trail where
    len: "length segs = length (path_points revisit) - 1"
    and ex: "export_to_files st' =
        (Done, \<lparr> c_file = Some (Header # map Entry (concat segs @ trail) @ [Footer]),
                 txt_file = Some (concat segs @ trail) \<rparr>)"
    and seg: "\<forall>k. (k = 0 \<or> k = 2) \<and> k + 1 < length (path_points revisit) \<longrightarrow>
                     (\<exists>ps. generate_intermediate_points (path_points revisit ! k)
                              (path_points revisit ! (k + 1)) None 3 = Inr ps
                        \<and> segs ! k =
                            (if Clasp \<noteq> CmdNone
                             then [actuator_line Clasp (path_points revisit ! k)
                                     (calculate_heading (path_points revisit ! k)
                                        (path_points revisit ! (k + 1)))]
                             else [])
                            @ map (move_line (path_points revisit ! k)
                                     (calculate_heading (path_points revisit ! k)
                                        (path_points revisit ! (k + 1)))) ps)"
    and tr: "\<forall>k. (k = 0 \<or> k = 2) \<and> k + 1 = length (path_points revisit) \<longrightarrow>
                     trail =
                       (if Clasp \<noteq> CmdNone
                        then [actuator_line Clasp (path_points revisit ! k)
                                (calculate_heading (path_points revisit ! (k - 1))
                                   (path_points revisit ! k))]
                        else [])"
    by blast
  from seg [rule_format, of 0] obtain ps where
    s0: "segs ! 0 = actuator_line Clasp (10, 10) 0 # map (move_line (10, 10) 0) ps"
    by (auto simp add: p heading_revisit_out)
  from tr [rule_format, of 2] have
    t: "trail = [actuator_line Clasp (10, 10) 180]"
    by (simp add: p heading_revisit_back)
  from len obtain sa sb where segs: "segs = [sa, sb]"
    by (auto simp add: p length_Suc_conv numeral_2_eq_2)
  from s0 segs have "hd (concat segs @ trail) = actuator_line Clasp (10, 10) 0" by simp
  then have hdo: "hd (concat segs @ trail) = Instr (CMD Clasp) 10 10 0 0"
    by (simp add: actuator_line_def)
  have lao: "last (concat segs @ trail) = Instr (CMD Clasp) 10 10 180 0"
    by (simp add: t actuator_line_def)
  from ex hdo lao have X: "\<exists>out. export_to_files st' =
               (Done, \<lparr> c_file = Some (Header # map Entry out @ [Footer]),
                        txt_file = Some out \<rparr>)
         \<and> hd out = Instr (CMD Clasp) 10 10 0 0
         \<and> last out = Instr (CMD Clasp) 10 10 180 0"
    by blast
  from cj pp have c2: "waypoint_commands st' (path_points revisit ! 2) = Some Clasp" by simp
  from h1 h2 h3 h4 f1 f2 f3 d c2 X show ?thesis unfolding st'_def by blast
qed

subsection \<open>Densification of a curve\<close>












text \<open>
  The export itself never reaches the curve case with a control point: the release
  position is not stored when the gesture ends, and while a gesture is open the loop calls
  a method the class does not have.
\<close>

lemma finalize_ignores_control:
  "finalize_curve_point st c1 = finalize_curve_point st c2"
  by (simp only: finalize_curve_point_def calculate_bezier_end_def)

lemma export_during_gesture:
  assumes "dragging_curve st" and "2 \<le> length (path_points st)"
    and "waypoint_commands st (path_points st ! 0) = Some c"
  shows "export_to_files st =
           (Raised AttributeError, \<lparr> c_file = Some [Header], txt_file = None \<rparr>)"
proof -
  have u: "[0..<length (path_points st) - 1] = 0 # [1..<length (path_points st) - 1]"
    using assms(2) by (simp add: upt_conv_Cons)
  have "export_segment st 0 = Inl AttributeError"
    using assms by (simp add: export_segment_def Let_def)
  then have "export_loop st [0..<length (path_points st) - 1] [] None
               = (Some AttributeError, [], None)"
    unfolding u by simp
  then have "export_body st = (Some AttributeError, [])"
    unfolding export_body_def by simp
  from export_to_files_raised [OF this] show ?thesis by simp
qed

end
